theory Spec2Isabelle
  imports Main "HOL-Library.Word" "HOL-Library.List_Lexorder" "HOL-Library.Char_ord"
    "HOL-Library.AList"
begin

unbundle bit_operations_syntax

section \<open>Python values and strings\<close>

text \<open>
  Query parameter values are strings (\<open>start_time.isoformat()\<close>) or integers
  (\<open>limit\<close>, \<open>offset\<close>). A Python \<open>str\<close> is modelled as a \<open>string\<close> whose characters
  are code points below 256; \<open>str\<close> comparison is by code point, which is the order of
  \<open>Char_ord\<close> and \<open>List_Lexorder\<close>. A \<open>dict\<close> is an association list in insertion
  order with distinct keys.
\<close>

datatype pyval = PyStr string | PyInt int

definition digit_char :: "nat \<Rightarrow> char" where
  "digit_char d = ''0123456789'' ! d"

fun nat_digits :: "nat \<Rightarrow> string" where
  "nat_digits n =
     (if n < 10 then [digit_char n] else nat_digits (n div 10) @ [digit_char (n mod 10)])"

declare nat_digits.simps [simp del]

text \<open>\<open>str(i)\<close> for an \<open>int\<close>.\<close>

definition str_int :: "int \<Rightarrow> string" where
  "str_int i = (if i < 0 then CHR ''-'' # nat_digits (nat (- i)) else nat_digits (nat i))"

text \<open>The rendering of a value inside an f-string, \<open>f"{v}"\<close>.\<close>

fun py_str :: "pyval \<Rightarrow> string" where
  "py_str (PyStr s) = s"
| "py_str (PyInt i) = str_int i"

text \<open>\<open>sep.join(xs)\<close>.\<close>

fun py_join :: "string \<Rightarrow> string list \<Rightarrow> string" where
  "py_join sep [] = []"
| "py_join sep [x] = x"
| "py_join sep (x # y # ys) = x @ sep @ py_join sep (y # ys)"

text \<open>\<open>s.rstrip(chars)\<close>: drop every trailing character that is in \<open>chars\<close>.\<close>

definition py_rstrip :: "string \<Rightarrow> string \<Rightarrow> string" where
  "py_rstrip chars s = rev (dropWhile (\<lambda>c. c \<in> set chars) (rev s))"

text \<open>\<open>s.replace(a, b)\<close> for one-character strings \<open>a\<close> and \<open>b\<close>.\<close>

definition py_replace_char :: "char \<Rightarrow> char \<Rightarrow> string \<Rightarrow> string" where
  "py_replace_char a b s = map (\<lambda>c. if c = a then b else c) s"

text \<open>\<open>"%0<width>d" % n\<close> for a non-negative \<open>n\<close>.\<close>

definition zero_pad :: "nat \<Rightarrow> nat \<Rightarrow> string" where
  "zero_pad width n = replicate (width - length (nat_digits n)) CHR ''0'' @ nat_digits n"

definition newline :: string where
  "newline = [CHR 0x0A]"

section \<open>Canonicalized query parameters\<close>

text \<open>
  \<^verbatim>\<open>test_url_encoding.py\<close>, lines 42-43 (and \<^verbatim>\<open>test_signature_with_params.py\<close>, 53-54):
  \<^verbatim>\<open>
  sorted_params = sorted(params.items())
  unencoded_query = "&".join([f"{k}={v}" for k, v in sorted_params])
  \<close>
  \<open>sorted\<close> compares the \<open>(key, value)\<close> tuples; the keys of a \<open>dict\<close> are distinct, so the
  comparison is decided by the key and never reaches a value. \<open>sorted\<close> is stable, as
  \<open>sort_key\<close> is.
\<close>

definition key_value :: "string \<times> pyval \<Rightarrow> string" where
  "key_value kv = fst kv @ ''='' @ py_str (snd kv)"

definition canonicalize :: "(string \<times> pyval) list \<Rightarrow> string" where
  "canonicalize params =
     (let sorted_params = sort_key fst params
      in py_join ''&'' (map key_value sorted_params))"

text \<open>
  The specification's wording, on the parameter map itself: the keys in lexicographic
  order, each joined to its literal value by \<open>=\<close>, the pairs joined by \<open>&\<close>.
\<close>

definition spec_canonicalize :: "(string \<rightharpoonup> pyval) \<Rightarrow> string" where
  "spec_canonicalize m =
     py_join ''&'' (map (\<lambda>k. k @ ''='' @ py_str (the (m k))) (sorted_list_of_set (dom m)))"

section \<open>Base64\<close>

type_synonym byte = "8 word"

text \<open>
  Python's \<open>base64.urlsafe_b64encode(s)\<close> is \<open>b64encode(s)\<close> with \<open>+\<close> and \<open>/\<close> translated to
  \<open>-\<close> and \<open>_\<close>; \<open>b64encode\<close> turns each group of three bytes into four characters of the
  standard alphabet and pads the last group with \<open>=\<close>. The result is ASCII, so the
  following \<open>.decode('ascii')\<close> changes nothing and the result is kept as a \<open>string\<close>.
\<close>

definition b64_alphabet :: string where
  "b64_alphabet = ''ABCDEFGHIJKLMNOPQRSTUVWXYZabcdefghijklmnopqrstuvwxyz0123456789+/''"

definition b64_char :: "nat \<Rightarrow> char" where
  "b64_char i = b64_alphabet ! i"

fun b64encode :: "byte list \<Rightarrow> string" where
  "b64encode (a # b # c # rest) =
     [b64_char (unat a div 4),
      b64_char (unat a mod 4 * 16 + unat b div 16),
      b64_char (unat b mod 16 * 4 + unat c div 64),
      b64_char (unat c mod 64)] @ b64encode rest"
| "b64encode [a, b] =
     [b64_char (unat a div 4),
      b64_char (unat a mod 4 * 16 + unat b div 16),
      b64_char (unat b mod 16 * 4),
      CHR ''='']"
| "b64encode [a] =
     [b64_char (unat a div 4), b64_char (unat a mod 4 * 16), CHR ''='', CHR ''='']"
| "b64encode [] = []"

definition urlsafe_encode_translation :: "char \<Rightarrow> char" where
  "urlsafe_encode_translation c =
     (if c = CHR ''+'' then CHR ''-'' else if c = CHR ''/'' then CHR ''_'' else c)"

definition urlsafe_b64encode :: "byte list \<Rightarrow> string" where
  "urlsafe_b64encode s = map urlsafe_encode_translation (b64encode s)"

text \<open>
  \<open>base64.urlsafe_b64decode(s)\<close> for a \<open>str\<close> argument: the string must be ASCII
  (\<open>ValueError\<close> otherwise), \<open>-\<close> and \<open>_\<close> are translated to \<open>+\<close> and \<open>/\<close>, and
  \<open>binascii.a2b_base64\<close> decodes without validation: a character outside the alphabet is
  skipped, a \<open>=\<close> that completes the current group of four ends the decoding, and input
  that ends inside a group raises \<open>binascii.Error\<close>.
\<close>

datatype decode_error =
    NonAsciiSecret       \<comment> \<open>\<open>ValueError\<close>: string argument should contain only ASCII characters\<close>
  | InvalidDataLength    \<comment> \<open>\<open>binascii.Error\<close>: data characters 1 more than a multiple of 4\<close>
  | IncorrectPadding     \<comment> \<open>\<open>binascii.Error\<close>: Incorrect padding\<close>
  | UnicodeEncodeError   \<comment> \<open>\<open>payload.encode('ascii')\<close> on a non-ASCII payload\<close>

fun index_of :: "'a list \<Rightarrow> 'a \<Rightarrow> nat option" where
  "index_of [] x = None"
| "index_of (y # ys) x = (if x = y then Some 0 else map_option Suc (index_of ys x))"

definition urlsafe_decode_translation :: "char \<Rightarrow> char" where
  "urlsafe_decode_translation c =
     (if c = CHR ''-'' then CHR ''+'' else if c = CHR ''_'' then CHR ''/'' else c)"

text \<open>
  The loop of \<open>a2b_base64\<close>: \<open>quad_pos\<close> is the position inside the current group of four,
  \<open>leftchar\<close> the bits left over from the previous character, \<open>pads\<close> the number of \<open>=\<close>
  seen since the last data character (counted only once \<open>quad_pos \<ge> 2\<close>).
\<close>

fun a2b_base64 :: "string \<Rightarrow> nat \<Rightarrow> byte \<Rightarrow> nat \<Rightarrow> byte list \<Rightarrow> decode_error + byte list" where
  "a2b_base64 [] quad_pos leftchar pads out =
     (if quad_pos \<noteq> 0
      then (if quad_pos = 1 then Inl InvalidDataLength else Inl IncorrectPadding)
      else Inr out)"
| "a2b_base64 (c # cs) quad_pos leftchar pads out =
     (if c = CHR ''='' then
        (if quad_pos \<ge> 2 \<and> quad_pos + (pads + 1) \<ge> 4 then Inr out
         else a2b_base64 cs quad_pos leftchar (if quad_pos \<ge> 2 then pads + 1 else pads) out)
      else
        (case index_of b64_alphabet c of
           None \<Rightarrow> a2b_base64 cs quad_pos leftchar pads out
         | Some i \<Rightarrow>
             (let this_ch = (of_nat i :: byte) in
              if quad_pos = 0 then a2b_base64 cs 1 this_ch 0 out
              else if quad_pos = 1 then
                a2b_base64 cs 2 (this_ch AND 0x0f) 0
                  (out @ [push_bit 2 leftchar OR drop_bit 4 this_ch])
              else if quad_pos = 2 then
                a2b_base64 cs 3 (this_ch AND 0x03) 0
                  (out @ [push_bit 4 leftchar OR drop_bit 2 this_ch])
              else
                a2b_base64 cs 0 0 0 (out @ [push_bit 6 leftchar OR this_ch]))))"

definition is_ascii :: "string \<Rightarrow> bool" where
  "is_ascii s = list_all (\<lambda>c. (of_char c :: nat) < 128) s"

definition urlsafe_b64decode :: "string \<Rightarrow> decode_error + byte list" where
  "urlsafe_b64decode s =
     (if \<not> is_ascii s then Inl NonAsciiSecret
      else a2b_base64 (map urlsafe_decode_translation s) 0 0 0 [])"

text \<open>
  \<^verbatim>\<open>test_crusoe_auth.py\<close>, lines 38-39 (the same expression in
  \<^verbatim>\<open>test_query_param_issue.py\<close>, line 36):
  \<^verbatim>\<open>
  secret_key_padded = secret_key + '=' * (-len(secret_key) % 4)
  decoded_secret = base64.urlsafe_b64decode(secret_key_padded)
  \<close>
  Python's \<open>%\<close> with a positive divisor is \<open>mod\<close> on \<open>int\<close>.
\<close>

definition pad_secret :: "string \<Rightarrow> string" where
  "pad_secret secret_key =
     secret_key @ replicate (nat ((- int (length secret_key)) mod 4)) CHR ''=''"

definition decode_secret :: "string \<Rightarrow> decode_error + byte list" where
  "decode_secret secret_key = urlsafe_b64decode (pad_secret secret_key)"

section \<open>HMAC-SHA256\<close>

text \<open>
  \<open>hmac.new(key, msg, hashlib.sha256).digest()\<close>: SHA-256 (FIPS 180-4) on bytes and the HMAC
  construction (RFC 2104) with its block size of 64 bytes. The round constants and the
  initial hash are written in decimal.
\<close>

type_synonym word32 = "32 word"

definition sha256_k :: "word32 list" where
  "sha256_k =
   [1116352408, 1899447441, 3049323471, 3921009573, 961987163, 1508970993,
    2453635748, 2870763221, 3624381080, 310598401, 607225278, 1426881987,
    1925078388, 2162078206, 2614888103, 3248222580, 3835390401, 4022224774,
    264347078, 604807628, 770255983, 1249150122, 1555081692, 1996064986,
    2554220882, 2821834349, 2952996808, 3210313671, 3336571891, 3584528711,
    113926993, 338241895, 666307205, 773529912, 1294757372, 1396182291,
    1695183700, 1986661051, 2177026350, 2456956037, 2730485921, 2820302411,
    3259730800, 3345764771, 3516065817, 3600352804, 4094571909, 275423344,
    430227734, 506948616, 659060556, 883997877, 958139571, 1322822218,
    1537002063, 1747873779, 1955562222, 2024104815, 2227730452, 2361852424,
    2428436474, 2756734187, 3204031479, 3329325298]"

definition sha256_h0 :: "word32 list" where
  "sha256_h0 =
   [1779033703, 3144134277, 1013904242, 2773480762,
    1359893119, 2600822924, 528734635, 1541459225]"

definition rotr :: "nat \<Rightarrow> word32 \<Rightarrow> word32" where
  "rotr n w = drop_bit n w OR push_bit (32 - n) w"

definition be_bytes32 :: "word32 \<Rightarrow> byte list" where
  "be_bytes32 w = [ucast (drop_bit 24 w), ucast (drop_bit 16 w), ucast (drop_bit 8 w), ucast w]"

definition be_bytes64 :: "64 word \<Rightarrow> byte list" where
  "be_bytes64 w = map (\<lambda>i. ucast (drop_bit (8 * (7 - i)) w)) [0..<8]"

definition be_word :: "byte list \<Rightarrow> word32" where
  "be_word bs = foldl (\<lambda>acc b. push_bit 8 acc OR ucast b) 0 bs"

fun chunks :: "nat \<Rightarrow> 'a list \<Rightarrow> 'a list list" where
  "chunks n [] = []"
| "chunks n (x # xs) = (if n = 0 then [] else take n (x # xs) # chunks n (drop n (x # xs)))"

definition sha256_pad :: "byte list \<Rightarrow> byte list" where
  "sha256_pad m = m @ [0x80] @ replicate ((55 + 64 - length m mod 64) mod 64) 0
                    @ be_bytes64 (of_nat (8 * length m))"

fun schedule :: "nat \<Rightarrow> word32 list \<Rightarrow> word32 list" where
  "schedule 0 w = w"
| "schedule (Suc n) w =
     (let i = length w;
          s0 = rotr 7 (w ! (i - 15)) XOR rotr 18 (w ! (i - 15)) XOR drop_bit 3 (w ! (i - 15));
          s1 = rotr 17 (w ! (i - 2)) XOR rotr 19 (w ! (i - 2)) XOR drop_bit 10 (w ! (i - 2))
      in schedule n (w @ [w ! (i - 16) + s0 + w ! (i - 7) + s1]))"

definition sha256_round :: "word32 list \<Rightarrow> word32 \<times> word32 \<Rightarrow> word32 list" where
  "sha256_round v kw =
     (case v of
        [a, b, c, d, e, f, g, h] \<Rightarrow>
          (let S1 = rotr 6 e XOR rotr 11 e XOR rotr 25 e;
               ch = (e AND f) XOR (NOT e AND g);
               t1 = h + S1 + ch + fst kw + snd kw;
               S0 = rotr 2 a XOR rotr 13 a XOR rotr 22 a;
               maj = (a AND b) XOR (a AND c) XOR (b AND c);
               t2 = S0 + maj
           in [t1 + t2, a, b, c, d + t1, e, f, g])
      | _ \<Rightarrow> v)"

definition sha256_compress :: "word32 list \<Rightarrow> byte list \<Rightarrow> word32 list" where
  "sha256_compress hs block =
     (let w = schedule 48 (map be_word (chunks 4 block));
          v = foldl sha256_round hs (zip sha256_k w)
      in map2 (+) hs v)"

definition sha256 :: "byte list \<Rightarrow> byte list" where
  "sha256 m =
     concat (map be_bytes32 (foldl sha256_compress sha256_h0 (chunks 64 (sha256_pad m))))"

definition hmac_sha256 :: "byte list \<Rightarrow> byte list \<Rightarrow> byte list" where
  "hmac_sha256 key msg =
     (let k0 = (if length key > 64 then sha256 key else key);
          k = k0 @ replicate (64 - length k0) 0;
          ipad = map (\<lambda>b. b XOR 0x36) k;
          opad = map (\<lambda>b. b XOR 0x5c) k
      in sha256 (opad @ sha256 (ipad @ msg)))"

section \<open>Timestamps\<close>

text \<open>
  A \<open>datetime\<close> with its fields; \<open>utcoffset\<close> is the offset of its \<open>tzinfo\<close> in whole
  seconds, \<open>None\<close> for a naive value. \<open>isoformat\<close> follows \<open>datetime.isoformat(sep)\<close>:
  \<^verbatim>\<open>YYYY-MM-DD<sep>HH:MM:SS[.ffffff][+HH:MM[:SS]]\<close>, the fraction printed only when the
  microseconds are not zero. \<open>str(dt)\<close> is \<open>dt.isoformat(sep=' ')\<close>.
\<close>

record datetime =
  year :: nat
  month :: nat
  day :: nat
  hour :: nat
  minute :: nat
  second :: nat
  microsecond :: nat
  utcoffset :: "int option"

definition format_offset :: "int option \<Rightarrow> string" where
  "format_offset off =
     (case off of
        None \<Rightarrow> []
      | Some s \<Rightarrow>
          (let a = nat \<bar>s\<bar>; hh = a div 3600; mm = a mod 3600 div 60; ss = a mod 60
           in (if s < 0 then ''-'' else ''+'') @ zero_pad 2 hh @ '':'' @ zero_pad 2 mm
                @ (if ss \<noteq> 0 then '':'' @ zero_pad 2 ss else [])))"

definition isoformat_sep :: "char \<Rightarrow> datetime \<Rightarrow> string" where
  "isoformat_sep sep dt =
     zero_pad 4 (year dt) @ ''-'' @ zero_pad 2 (month dt) @ ''-'' @ zero_pad 2 (day dt)
       @ [sep]
       @ zero_pad 2 (hour dt) @ '':'' @ zero_pad 2 (minute dt) @ '':'' @ zero_pad 2 (second dt)
       @ (if microsecond dt \<noteq> 0 then ''.'' @ zero_pad 6 (microsecond dt) else [])
       @ format_offset (utcoffset dt)"

definition isoformat :: "datetime \<Rightarrow> string" where
  "isoformat dt = isoformat_sep CHR ''T'' dt"



text \<open>
  \<open>datetime.datetime.now(datetime.timezone.utc)\<close>: the clock is read as the current UTC
  wall-clock fields and the result carries the UTC \<open>tzinfo\<close>.
\<close>

definition now_utc :: "datetime \<Rightarrow> datetime" where
  "now_utc clock = clock\<lparr>utcoffset := Some 0\<rparr>"

section \<open>The signer\<close>

text \<open>
  \<^verbatim>\<open>test_crusoe_auth.py\<close>, \<open>create_crusoe_signature\<close> (lines 13-55). The clock read by
  \<open>datetime.now\<close> is the argument \<open>clock\<close>; the function returns the pair
  \<open>(timestamp, authorization header)\<close>, or the exception raised while decoding the secret or
  encoding the payload.
\<close>

definition encode_ascii :: "string \<Rightarrow> byte list option" where
  "encode_ascii s = (if is_ascii s then Some (map (\<lambda>c. of_nat (of_char c)) s) else None)"

definition signature_payload :: "string \<Rightarrow> string \<Rightarrow> string \<Rightarrow> string \<Rightarrow> string" where
  "signature_payload path query_params http_verb timestamp =
     path @ newline @ query_params @ newline @ http_verb @ newline @ timestamp @ newline"

definition create_crusoe_signature ::
  "datetime \<Rightarrow> string \<Rightarrow> string \<Rightarrow> string \<Rightarrow> string \<Rightarrow> string
     \<Rightarrow> decode_error + (string \<times> string)" where
  "create_crusoe_signature clock access_key_id secret_key http_verb path query_params =
     (let dt = (now_utc clock)\<lparr>microsecond := 0\<rparr>;
          timestamp = isoformat dt;
          payload = signature_payload path query_params http_verb timestamp;
          secret_key_padded = pad_secret secret_key
      in case urlsafe_b64decode secret_key_padded of
           Inl e \<Rightarrow> Inl e
         | Inr decoded_secret \<Rightarrow>
             (case encode_ascii payload of
                None \<Rightarrow> Inl UnicodeEncodeError
              | Some msg \<Rightarrow>
                  (let signature_bytes = hmac_sha256 decoded_secret msg;
                       signature = py_rstrip ''='' (urlsafe_b64encode signature_bytes);
                       signature_version = ''1.0'';
                       auth_value = signature_version @ '':'' @ access_key_id @ '':'' @ signature
                   in Inr (timestamp, ''Bearer '' @ auth_value))))"



section \<open>The audit-log client\<close>

subsection \<open>Configuration\<close>

text \<open>
  \<^verbatim>\<open>config.py\<close>: \<open>CrusoeConfig\<close> and \<open>AppConfig\<close> with the defaults of \<open>AppConfig\<close>. The Splunk
  part of \<open>AppConfig\<close> plays no role in fetching and is left out.
\<close>

record CrusoeConfig =
  api_token :: string
  base_url :: string
  organization_id :: string

record AppConfig =
  crusoe :: CrusoeConfig
  batch_size :: int
  timeout :: int
  max_retries :: int

definition default_app_config :: "CrusoeConfig \<Rightarrow> AppConfig" where
  "default_app_config c = \<lparr>crusoe = c, batch_size = 100, timeout = 30, max_retries = 3\<rparr>"

subsection \<open>JSON bodies\<close>

text \<open>
  What \<open>response.json()\<close> returns. An object is the parsed \<open>dict\<close>: distinct keys in
  insertion order. A number keeps its literal; the client never looks into one.
\<close>

datatype json =
    JNull
  | JBool bool
  | JNum string
  | JStr string
  | JArr "json list"
  | JObj "(string \<times> json) list"

text \<open>\<open>len(x)\<close>: defined for strings, lists and dicts, \<open>TypeError\<close> (\<open>None\<close>) otherwise.\<close>

fun py_len :: "json \<Rightarrow> nat option" where
  "py_len (JStr s) = Some (length s)"
| "py_len (JArr xs) = Some (length xs)"
| "py_len (JObj kvs) = Some (length kvs)"
| "py_len _ = None"

text \<open>
  The elements \<open>list.extend(x)\<close> appends: those of a list, the characters of a string,
  the keys of a dict.
\<close>

fun py_iter :: "json \<Rightarrow> json list" where
  "py_iter (JArr xs) = xs"
| "py_iter (JStr s) = map (\<lambda>c. JStr [c]) s"
| "py_iter (JObj kvs) = map (\<lambda>kv. JStr (fst kv)) kvs"
| "py_iter _ = []"

subsection \<open>Requests, responses and the network\<close>

record http_request =
  req_verb :: string
  url :: string
  params :: "(string \<times> pyval) list"
  headers :: "(string \<times> string) list"
  timeout_seconds :: nat

text \<open>
  A response as the client reads it: the status, the \<open>Retry-After\<close> header in seconds when
  the response has one, and the JSON body (\<open>None\<close> when the body does not parse). It is the
  final response of an attempt; redirects are not modelled.
\<close>

record http_response =
  status_code :: nat
  retry_after :: "nat option"
  json_body :: "json option"

datatype attempt = NetworkFailure | Answer http_response

text \<open>
  The endpoint answers one attempt at a time and may change its state. The effects of the
  client are recorded in a trace: every attempt sent, and every sleep in milliseconds.
\<close>

type_synonym 's endpoint = "'s \<Rightarrow> http_request \<Rightarrow> attempt \<times> 's"

datatype event = Sent http_request | Slept nat

record 's net =
  server :: 's
  trace :: "event list"

fun is_sent :: "event \<Rightarrow> bool" where
  "is_sent (Sent r) = True"
| "is_sent (Slept n) = False"

definition requests_sent :: "event list \<Rightarrow> http_request list" where
  "requests_sent evs = concat (map (\<lambda>e. case e of Sent r \<Rightarrow> [r] | Slept n \<Rightarrow> []) evs)"

subsection \<open>The retry policy of the session\<close>

text \<open>
  \<^verbatim>\<open>crusoe_client.py\<close>, \<open>_create_session\<close> (lines 38-43):
  \<^verbatim>\<open>
  retry_strategy = Retry(total=3, status_forcelist=[429, 500, 502, 503, 504],
                         method_whitelist=["HEAD", "GET", "OPTIONS"], backoff_factor=1)
  \<close>
  with the semantics of \<open>urllib3.util.retry.Retry\<close> (the 1.x series, which accepts
  \<open>method_whitelist\<close>) inside \<open>HTTPConnectionPool.urlopen\<close>: a failed attempt decrements
  \<open>total\<close>; the policy is exhausted when \<open>total\<close> falls below zero; before the next attempt
  the pool sleeps for the \<open>Retry-After\<close> of the response, or else for
  \<open>backoff_factor * 2 ^ (consecutive errors - 1)\<close> seconds, capped at 120 and zero after the
  first error.
\<close>

record Retry =
  total :: int
  status_forcelist :: "nat list"
  method_whitelist :: "string list"
  backoff_factor :: nat

definition retry_strategy :: Retry where
  "retry_strategy =
     \<lparr>total = 3, status_forcelist = [429, 500, 502, 503, 504],
      method_whitelist = [''HEAD'', ''GET'', ''OPTIONS''], backoff_factor = 1\<rparr>"

definition is_retry :: "Retry \<Rightarrow> string \<Rightarrow> nat \<Rightarrow> bool \<Rightarrow> bool" where
  "is_retry r verb status has_retry_after =
     (if verb \<notin> set (method_whitelist r) then False
      else if status \<in> set (status_forcelist r) then True
      else total r \<noteq> 0 \<and> has_retry_after \<and> status \<in> set [413, 429, 503])"

definition get_backoff_time :: "Retry \<Rightarrow> nat \<Rightarrow> nat" where
  "get_backoff_time r consecutive_errors =
     (if consecutive_errors \<le> 1 then 0
      else min 120 (backoff_factor r * 2 ^ (consecutive_errors - 1)))"

text \<open>\<open>time.sleep(seconds)\<close>; the pool does not sleep for a backoff of zero.\<close>

definition sleep_seconds :: "nat \<Rightarrow> 's net \<Rightarrow> 's net" where
  "sleep_seconds n w = (if n = 0 then w else w\<lparr>trace := trace w @ [Slept (1000 * n)]\<rparr>)"

definition retry_sleep :: "Retry \<Rightarrow> nat \<Rightarrow> http_response option \<Rightarrow> 's net \<Rightarrow> 's net" where
  "retry_sleep r consecutive_errors response w =
     (case response of
        Some resp \<Rightarrow>
          (case retry_after resp of
             Some n \<Rightarrow>
               if n \<noteq> 0 then sleep_seconds n w
               else sleep_seconds (get_backoff_time r consecutive_errors) w
           | None \<Rightarrow> sleep_seconds (get_backoff_time r consecutive_errors) w)
      | None \<Rightarrow> sleep_seconds (get_backoff_time r consecutive_errors) w)"

text \<open>
  The exceptions of \<open>requests\<close> the client can meet; all are \<open>RequestException\<close>s.
  \<open>HTTPError\<close> (from \<open>raise_for_status\<close>) is the only one that carries a response.
\<close>

datatype request_exception =
    HTTPError http_response
  | RetryError
  | ConnectionError
  | JSONDecodeError

text \<open>
  One \<open>session.get\<close> through the mounted adapter: attempts are repeated under the retry
  policy \<open>r\<close>; \<open>history\<close> counts the errors so far.
\<close>

function urlopen ::
  "'s endpoint \<Rightarrow> Retry \<Rightarrow> nat \<Rightarrow> http_request \<Rightarrow> 's net
     \<Rightarrow> (request_exception + http_response) \<times> 's net" where
  "urlopen ep r history req w =
     (let (a, s) = ep (server w) req;
          w1 = w\<lparr>server := s, trace := trace w @ [Sent req]\<rparr>
      in case a of
           NetworkFailure \<Rightarrow>
             if total r - 1 < 0 then (Inl ConnectionError, w1)
             else urlopen ep (r\<lparr>total := total r - 1\<rparr>) (history + 1) req
                    (retry_sleep r (history + 1) None w1)
         | Answer response \<Rightarrow>
             if is_retry r (req_verb req) (status_code response) (retry_after response \<noteq> None)
             then
               if total r - 1 < 0 then (Inl RetryError, w1)
               else urlopen ep (r\<lparr>total := total r - 1\<rparr>) (history + 1) req
                      (retry_sleep r (history + 1) (Some response) w1)
             else (Inr response, w1))"
  by pat_completeness auto
termination
  by (relation "measure (\<lambda>(ep, r, history, req, w). nat (total r))") auto

declare urlopen.simps [simp del]

subsection \<open>The client\<close>

text \<open>
  \<^verbatim>\<open>crusoe_client.py\<close>, \<open>_create_session\<close> (lines 33-56): the retry policy is mounted and
  the default headers are set once, from the configured token. (The headers that
  \<open>requests\<close> adds by itself are left out.)
\<close>

record session =
  session_headers :: "(string \<times> string) list"
  session_retry :: Retry

definition create_session :: "CrusoeConfig \<Rightarrow> session" where
  "create_session config =
     \<lparr>session_headers =
        [(''Authorization'', ''Bearer '' @ api_token config),
         (''Content-Type'', ''application/json''),
         (''User-Agent'', ''crusoe-splunk-hec/1.0'')],
      session_retry = retry_strategy\<rparr>"

record CrusoeClient =
  client_config :: CrusoeConfig
  client_session :: session

definition crusoe_client :: "CrusoeConfig \<Rightarrow> CrusoeClient" where
  "crusoe_client config = \<lparr>client_config = config, client_session = create_session config\<rparr>"

text \<open>\<open>session.get(url, params=params, timeout=30)\<close>.\<close>

definition session_get ::
  "session \<Rightarrow> 's endpoint \<Rightarrow> string \<Rightarrow> (string \<times> pyval) list \<Rightarrow> nat \<Rightarrow> 's net
     \<Rightarrow> (request_exception + http_response) \<times> 's net" where
  "session_get s ep u ps t w =
     urlopen ep (session_retry s) 0
       \<lparr>req_verb = ''GET'', url = u, params = ps, headers = session_headers s,
        timeout_seconds = t\<rparr> w"

text \<open>
  The exceptions that leave \<open>get_audit_logs\<close>. \<open>CrusoeAPIError\<close> keeps the parts of its
  message \<open>"Failed to fetch audit logs: {e}" + detail\<close>: the request exception \<open>e\<close>, and the
  detail appended for an exception with a response, the JSON body when it parses
  (\<open>" - {error_detail}"\<close>) and the status otherwise (\<open>" - Status: {code}"\<close>).
\<close>

datatype error_detail = Detail json | Status nat

datatype exn =
    CrusoeAPIError request_exception "error_detail option"
  | AttributeError
  | TypeError

text \<open>The Python class of an exception.\<close>

fun exn_class :: "exn \<Rightarrow> string" where
  "exn_class (CrusoeAPIError e d) = ''CrusoeAPIError''"
| "exn_class AttributeError = ''AttributeError''"
| "exn_class TypeError = ''TypeError''"

text \<open>The handler \<open>except requests.exceptions.RequestException as e\<close> (lines 108-118).\<close>

definition api_error :: "request_exception \<Rightarrow> exn" where
  "api_error e =
     CrusoeAPIError e
       (case e of
          HTTPError response \<Rightarrow>
            (case json_body response of
               Some error_detail \<Rightarrow> Some (Detail error_detail)
             | None \<Rightarrow> Some (Status (status_code response)))
        | _ \<Rightarrow> None)"

text \<open>
  The query parameters (lines 84-95). A \<open>datetime\<close> is always truthy, an \<open>int\<close> is truthy
  unless it is zero, \<open>None\<close> is falsy. \<open>params[k] = v\<close> and \<open>params.update(kwargs)\<close> are
  \<open>AList.update\<close>: a new key goes to the end, an old key keeps its place.
\<close>

definition build_params ::
  "datetime option \<Rightarrow> datetime option \<Rightarrow> int option \<Rightarrow> int option
     \<Rightarrow> (string \<times> pyval) list \<Rightarrow> (string \<times> pyval) list" where
  "build_params start_time end_time limit offset kwargs =
     (let params = [];
          params = (case start_time of
                      Some t \<Rightarrow> AList.update ''start_time'' (PyStr (isoformat t)) params
                    | None \<Rightarrow> params);
          params = (case end_time of
                      Some t \<Rightarrow> AList.update ''end_time'' (PyStr (isoformat t)) params
                    | None \<Rightarrow> params);
          params = (case limit of
                      Some n \<Rightarrow> if n \<noteq> 0 then AList.update ''limit'' (PyInt n) params else params
                    | None \<Rightarrow> params);
          params = (case offset of
                      Some n \<Rightarrow> if n \<noteq> 0 then AList.update ''offset'' (PyInt n) params else params
                    | None \<Rightarrow> params)
      in fold (\<lambda>kv. AList.update (fst kv) (snd kv)) kwargs params)"

definition audit_logs_url :: "CrusoeConfig \<Rightarrow> string" where
  "audit_logs_url config =
     base_url config @ ''/organizations/'' @ organization_id config @ ''/audit-logs''"

text \<open>
  What \<open>get_audit_logs\<close> does with the response (lines 100-106): \<open>raise_for_status\<close> raises
  \<open>HTTPError\<close> for a status from 400 to 599; \<open>response.json()\<close> raises \<open>JSONDecodeError\<close> (a
  \<open>RequestException\<close>) for a body that is not JSON; \<open>data.get("items", [])\<close> raises
  \<open>AttributeError\<close> when the body is not an object; \<open>len(logs)\<close> raises \<open>TypeError\<close> for a
  value without a length. The handler of line 108 catches the first two.
\<close>

definition read_response :: "http_response \<Rightarrow> exn + json" where
  "read_response response =
     (if 400 \<le> status_code response \<and> status_code response < 600
      then Inl (api_error (HTTPError response))
      else
        (case json_body response of
           None \<Rightarrow> Inl (api_error JSONDecodeError)
         | Some (JObj kvs) \<Rightarrow>
             (let logs = (case map_of kvs ''items'' of Some v \<Rightarrow> v | None \<Rightarrow> JArr [])
              in case py_len logs of
                   None \<Rightarrow> Inl TypeError
                 | Some n \<Rightarrow> Inr logs)
         | Some _ \<Rightarrow> Inl AttributeError))"

text \<open>\<open>get_audit_logs\<close> (lines 58-118).\<close>

definition get_audit_logs ::
  "CrusoeClient \<Rightarrow> 's endpoint \<Rightarrow> datetime option \<Rightarrow> datetime option \<Rightarrow> int option
     \<Rightarrow> int option \<Rightarrow> (string \<times> pyval) list \<Rightarrow> 's net \<Rightarrow> (exn + json) \<times> 's net" where
  "get_audit_logs self ep start_time end_time limit offset kwargs w =
     (let u = audit_logs_url (client_config self);
          ps = build_params start_time end_time limit offset kwargs;
          (r, w1) = session_get (client_session self) ep u ps 30 w
      in case r of
           Inl e \<Rightarrow> (Inl (api_error e), w1)
         | Inr response \<Rightarrow> (read_response response, w1))"

text \<open>
  \<open>get_audit_logs_paginated\<close> (lines 120-177). The \<open>while True\<close> loop is \<open>paginate\<close>, with the
  loop variables \<open>all_logs\<close>, \<open>offset\<close> and \<open>page_count\<close> as arguments; a run that never
  leaves the loop is \<open>None\<close>. \<open>CrusoeAPIError\<close> is re-raised (lines 169-171); any other
  exception ends the loop (lines 172-174) and the function returns \<open>all_logs\<close>.
\<close>

definition max_pages_reached :: "int option \<Rightarrow> int \<Rightarrow> bool" where
  "max_pages_reached max_pages page_count =
     (case max_pages of None \<Rightarrow> False | Some m \<Rightarrow> m \<noteq> 0 \<and> page_count \<ge> m)"

fun is_api_error :: "exn \<Rightarrow> bool" where
  "is_api_error (CrusoeAPIError e d) = True"
| "is_api_error _ = False"

partial_function (option) paginate ::
  "CrusoeClient \<Rightarrow> 's endpoint \<Rightarrow> datetime option \<Rightarrow> datetime option \<Rightarrow> int \<Rightarrow> int option
     \<Rightarrow> json list \<Rightarrow> int \<Rightarrow> int \<Rightarrow> 's net \<Rightarrow> ((exn + json list) \<times> 's net) option" where
  "paginate self ep start_time end_time page_size max_pages all_logs offset page_count w =
     (if max_pages_reached max_pages page_count then Some (Inr all_logs, w)
      else
        (case get_audit_logs self ep start_time end_time (Some page_size) (Some offset) [] w of
           (Inl e, w1) \<Rightarrow>
             if is_api_error e then Some (Inl e, w1) else Some (Inr all_logs, w1)
         | (Inr logs, w1) \<Rightarrow>
             (case py_len logs of
                None \<Rightarrow> Some (Inr all_logs, w1)
              | Some n \<Rightarrow>
                  if n = 0 then Some (Inr all_logs, w1)
                  else if int n < page_size
                  then Some (Inr (all_logs @ py_iter logs), w1)
                  else paginate self ep start_time end_time page_size max_pages
                         (all_logs @ py_iter logs) (offset + int n) (page_count + 1)
                         (w1\<lparr>trace := trace w1 @ [Slept 100]\<rparr>))))"

definition get_audit_logs_paginated ::
  "CrusoeClient \<Rightarrow> 's endpoint \<Rightarrow> datetime option \<Rightarrow> datetime option \<Rightarrow> int \<Rightarrow> int option
     \<Rightarrow> 's net \<Rightarrow> ((exn + json list) \<times> 's net) option" where
  "get_audit_logs_paginated self ep start_time end_time page_size max_pages w =
     paginate self ep start_time end_time page_size max_pages [] 0 0 w"

text \<open>
  \<^verbatim>\<open>main.py\<close>, \<open>LogForwarder\<close> (lines 30-38 and 80-84): the client is built from
  \<open>config.crusoe\<close> alone and the fetch uses \<open>batch_size\<close> as page size.
\<close>

definition forwarder_fetch ::
  "AppConfig \<Rightarrow> 's endpoint \<Rightarrow> datetime option \<Rightarrow> datetime option \<Rightarrow> 's net
     \<Rightarrow> ((exn + json list) \<times> 's net) option" where
  "forwarder_fetch config ep start_time end_time w =
     get_audit_logs_paginated (crusoe_client (crusoe config)) ep start_time end_time
       (batch_size config) None w"

subsection \<open>Endpoints for the scenarios\<close>

text \<open>
  A scripted endpoint answers with the next entry of its script, whatever the request;
  a successful page is a 200 response whose body is \<open>{"items": [...]}\<close>.
\<close>

definition scripted :: "attempt list endpoint" where
  "scripted script req = (case script of [] \<Rightarrow> (NetworkFailure, []) | a # rest \<Rightarrow> (a, rest))"

definition ok_page :: "json list \<Rightarrow> attempt" where
  "ok_page entries =
     Answer \<lparr>status_code = 200, retry_after = None,
             json_body = Some (JObj [(''items'', JArr entries)])\<rparr>"

definition status_answer :: "nat \<Rightarrow> json option \<Rightarrow> attempt" where
  "status_answer code b = Answer \<lparr>status_code = code, retry_after = None, json_body = b\<rparr>"

text \<open>An endpoint without state that gives the same answer to every attempt.\<close>

definition always :: "attempt \<Rightarrow> unit endpoint" where
  "always a u req = (a, ())"

text \<open>
  The request \<open>get_audit_logs\<close> sends, and the one \<open>get_audit_logs_paginated\<close> sends for
  the page at \<open>offset\<close>.
\<close>

definition audit_request ::
  "CrusoeClient \<Rightarrow> datetime option \<Rightarrow> datetime option \<Rightarrow> int option \<Rightarrow> int option
     \<Rightarrow> (string \<times> pyval) list \<Rightarrow> http_request" where
  "audit_request self start_time end_time limit offset kwargs =
     \<lparr>req_verb = ''GET'', url = audit_logs_url (client_config self),
      params = build_params start_time end_time limit offset kwargs,
      headers = session_headers (client_session self), timeout_seconds = 30\<rparr>"

definition page_request ::
  "CrusoeClient \<Rightarrow> datetime option \<Rightarrow> datetime option \<Rightarrow> int \<Rightarrow> int \<Rightarrow> http_request" where
  "page_request self start_time end_time page_size offset =
     audit_request self start_time end_time (Some page_size) (Some offset) []"

text \<open>
  The trace of a run over full pages: one request per page, at the offset reached so far,
  each followed by the pause of 0.1 s.
\<close>

fun page_events ::
  "CrusoeClient \<Rightarrow> datetime option \<Rightarrow> datetime option \<Rightarrow> int \<Rightarrow> int \<Rightarrow> json list list
     \<Rightarrow> event list" where
  "page_events self start_time end_time page_size offset [] = []"
| "page_events self start_time end_time page_size offset (p # pages) =
     Sent (page_request self start_time end_time page_size offset) # Slept 100
       # page_events self start_time end_time page_size (offset + int (length p)) pages"


text \<open>A status outside the force list, without \<open>Retry-After\<close>, is returned at once.\<close>

definition final_status :: "http_response \<Rightarrow> bool" where
  "final_status response =
     (status_code response \<notin> set [429, 500, 502, 503, 504]
      \<and> (retry_after response = None \<or> status_code response \<notin> set [413, 429, 503]))"

text \<open>
  The trace of a request whose every attempt is answered with a status of the force list
  and no \<open>Retry-After\<close>: \<open>n\<close> retries after the first attempt, each preceded by its
  backoff.
\<close>

definition backoff_events :: "Retry \<Rightarrow> nat \<Rightarrow> event list" where
  "backoff_events r consecutive_errors =
     (if get_backoff_time r consecutive_errors = 0 then []
      else [Slept (1000 * get_backoff_time r consecutive_errors)])"

fun attempts_trace :: "Retry \<Rightarrow> nat \<Rightarrow> nat \<Rightarrow> http_request \<Rightarrow> event list" where
  "attempts_trace r history 0 req = [Sent req]"
| "attempts_trace r history (Suc n) req =
     Sent req # backoff_events r (history + 1) @ attempts_trace r (history + 1) n req"

subsection \<open>Example values\<close>

text \<open>The configuration and the time window used in the worked scenarios.\<close>

definition example_config :: CrusoeConfig where
  "example_config =
     \<lparr>api_token = ''token'', base_url = ''https://api.crusoecloud.com/v1alpha5'',
      organization_id = ''org''\<rparr>"

definition example_start :: datetime where
  "example_start =
     \<lparr>year = 2025, month = 1, day = 1, hour = 0, minute = 0, second = 0, microsecond = 0,
      utcoffset = Some 0\<rparr>"

definition example_end :: datetime where
  "example_end =
     \<lparr>year = 2025, month = 1, day = 1, hour = 1, minute = 0, second = 0, microsecond = 0,
      utcoffset = Some 0\<rparr>"

section \<open>Properties of canonicalization\<close>

lemma map_fst_insort_key: "map fst (insort_key fst x xs) = insort (fst x) (map fst xs)"
  by (induction xs) simp_all

lemma map_fst_sort_key: "map fst (sort_key fst ps) = sort (map fst ps)"
  by (induction ps) (simp_all add: map_fst_insort_key)

lemma key_value_map_of:
  assumes "distinct (map fst ps)" and "kv \<in> set ps"
  shows "key_value kv = fst kv @ ''='' @ py_str (the (map_of ps (fst kv)))"
proof -
  obtain k v where kv: "kv = (k, v)" by (cases kv)
  with assms have "map_of ps k = Some v" by simp
  with kv show ?thesis by (simp add: key_value_def)
qed

lemma canonicalize_refines:
  assumes d: "distinct (map fst ps)"
  shows "canonicalize ps = spec_canonicalize (map_of ps)"
proof -
  have keys: "sorted_list_of_set (dom (map_of ps)) = map fst (sort_key fst ps)"
  proof -
    have "dom (map_of ps) = set (map fst ps)"
      by (simp add: dom_map_of_conv_image_fst)
    then show ?thesis
      using d by (simp only: sorted_list_of_set_sort_remdups distinct_remdups_id map_fst_sort_key)
  qed
  have "map key_value (sort_key fst ps)
      = map ((\<lambda>k. k @ ''='' @ py_str (the (map_of ps k))) \<circ> fst) (sort_key fst ps)"
    by (rule map_cong[OF refl]) (simp add: key_value_map_of[OF d])
  then show ?thesis
    unfolding canonicalize_def spec_canonicalize_def keys Let_def by (simp only: map_map)
qed

lemma canonicalize_examples:
  "canonicalize [] = []"
  "canonicalize [(''b'', PyInt 2), (''a'', PyInt 1)] = ''a=1&b=2''"
  "canonicalize [(''start_time'', PyStr ''2025-09-03T16:07:36.778033+00:00'')]
     = ''start_time=2025-09-03T16:07:36.778033+00:00''"
  by (simp_all add: canonicalize_def key_value_def str_int_def digit_char_def nat_digits.simps)

text \<open>
  C7. For every query-parameter map (a \<open>dict\<close>: an association list with distinct keys, in
  any insertion order) the canonical string is the one the specification describes: the
  keys in lexicographic order, each followed by \<open>=\<close> and its literal, unencoded value, the
  pairs joined by \<open>&\<close>. Two insertion orders of the same map give the same string; the
  empty map gives the empty string; \<open>{"b": 2, "a": 1}\<close> gives \<open>a=1&b=2\<close>; a value with
  \<open>:\<close> and \<open>+\<close> is copied as it is, without percent-encoding.
\<close>

theorem canonicalize_sort_and_join:
  "(\<forall>ps. distinct (map fst ps) \<longrightarrow> canonicalize ps = spec_canonicalize (map_of ps))
   \<and> (\<forall>ps qs. distinct (map fst ps) \<and> distinct (map fst qs) \<and> map_of ps = map_of qs
          \<longrightarrow> canonicalize ps = canonicalize qs)
   \<and> canonicalize [] = []
   \<and> canonicalize [(''b'', PyInt 2), (''a'', PyInt 1)] = ''a=1&b=2''
   \<and> canonicalize [(''start_time'', PyStr ''2025-09-03T16:07:36.778033+00:00'')]
        = ''start_time=2025-09-03T16:07:36.778033+00:00''"
  using canonicalize_refines canonicalize_examples by metis

theorem canonicalize_sort_and_join_witness:
  "canonicalize [(''start_time'', PyStr ''2025-09-03T16:07:36.778033+00:00''),
                 (''end_time'', PyStr ''2025-09-03T17:07:36.778033+00:00''),
                 (''limit'', PyInt 100)]
   = canonicalize [(''limit'', PyInt 100),
                   (''end_time'', PyStr ''2025-09-03T17:07:36.778033+00:00''),
                   (''start_time'', PyStr ''2025-09-03T16:07:36.778033+00:00'')]
   \<and> canonicalize [(''limit'', PyInt 100),
                   (''end_time'', PyStr ''2025-09-03T17:07:36.778033+00:00''),
                   (''start_time'', PyStr ''2025-09-03T16:07:36.778033+00:00'')]
     = ''end_time=2025-09-03T17:07:36.778033+00:00&limit=100&start_time=2025-09-03T16:07:36.778033+00:00''"
proof -
  let ?ps = "[(''start_time'', PyStr ''2025-09-03T16:07:36.778033+00:00''),
              (''end_time'', PyStr ''2025-09-03T17:07:36.778033+00:00''),
              (''limit'', PyInt 100)]"
  let ?qs = "[(''limit'', PyInt 100),
              (''end_time'', PyStr ''2025-09-03T17:07:36.778033+00:00''),
              (''start_time'', PyStr ''2025-09-03T16:07:36.778033+00:00'')]"
  have d: "distinct (map fst ?ps)" "distinct (map fst ?qs)" by simp_all
  have m: "map_of ?ps = map_of ?qs" by (rule ext) simp
  have "distinct (map fst ?ps) \<and> distinct (map fst ?qs) \<and> map_of ?ps = map_of ?qs"
    using d m by (intro conjI)
  then have "canonicalize ?ps = canonicalize ?qs"
    by (rule canonicalize_sort_and_join[THEN conjunct2, THEN conjunct1, rule_format])
  moreover have "canonicalize ?qs
     = ''end_time=2025-09-03T17:07:36.778033+00:00&limit=100&start_time=2025-09-03T16:07:36.778033+00:00''"
    by code_simp
  ultimately show ?thesis by (rule conjI)
qed

section \<open>Properties of secret decoding\<close>

lemma neg_len_mod4:
  assumes "(n + k) mod 4 = (0::nat)" and "k \<le> 3"
  shows "nat ((- int n) mod 4) = k"
proof -
  have "int ((n + k) mod 4) = int (n + k) mod 4"
    by (simp only: of_nat_mod of_nat_numeral)
  then have z: "int (n + k) mod 4 = 0"
    using assms(1) by simp
  have "- int n = int k - int (n + k)" by simp
  then have "(- int n) mod 4 = (int k - int (n + k)) mod 4" by (rule arg_cong)
  also have "\<dots> = (int k mod 4 - int (n + k) mod 4) mod 4"
    by (simp only: mod_diff_eq)
  also have "\<dots> = int k" using z assms(2) by simp
  finally show ?thesis by simp
qed

lemma pad_secret_restores:
  assumes "length full mod 4 = 0" and "k \<le> 3" and "full = s @ replicate k CHR ''=''"
  shows "pad_secret s = full"
proof -
  have "(length s + k) mod 4 = 0" using assms by simp
  then have "nat ((- int (length s)) mod 4) = k" using \<open>k \<le> 3\<close> by (rule neg_len_mod4)
  then show ?thesis using assms by (simp add: pad_secret_def)
qed

text \<open>
  C9. Let \<open>full\<close> be a fully padded secret (its length a multiple of four) that is valid
  URL-safe base64, decoding to \<open>bs\<close>, and let \<open>s\<close> be \<open>full\<close> with \<open>k \<le> 3\<close> of its trailing
  \<open>=\<close> characters missing. Appending \<open>(-len(s)) mod 4\<close> characters \<open>=\<close> to \<open>s\<close> gives back
  \<open>full\<close>, so the decoding of the re-padded secret succeeds with the same bytes \<open>bs\<close>,
  whatever \<open>k\<close> was.
\<close>

theorem decode_after_repadding:
  assumes "urlsafe_b64decode full = Inr bs" and "length full mod 4 = 0"
      and "k \<le> 3" and "full = s @ replicate k CHR ''=''"
  shows "pad_secret s = full \<and> decode_secret s = Inr bs"
proof -
  have p: "pad_secret s = full"
    using assms(2-4) by (rule pad_secret_restores)
  show ?thesis
    unfolding decode_secret_def p using assms(1) by simp
qed

theorem decode_after_repadding_witness:
  "urlsafe_b64decode ''c2VjcmV0MQ=='' = Inr [115, 101, 99, 114, 101, 116, 49]
   \<and> decode_secret ''c2VjcmV0MQ=='' = Inr [115, 101, 99, 114, 101, 116, 49]
   \<and> decode_secret ''c2VjcmV0MQ='' = Inr [115, 101, 99, 114, 101, 116, 49]
   \<and> decode_secret ''c2VjcmV0MQ'' = Inr [115, 101, 99, 114, 101, 116, 49]"
proof -
  have v: "urlsafe_b64decode ''c2VjcmV0MQ=='' = Inr [115, 101, 99, 114, 101, 116, 49]"
    by code_simp
  have l: "length ''c2VjcmV0MQ=='' mod 4 = 0" by simp
  have k0: "''c2VjcmV0MQ=='' = ''c2VjcmV0MQ=='' @ replicate 0 CHR ''=''" by simp
  have k1: "''c2VjcmV0MQ=='' = ''c2VjcmV0MQ='' @ replicate 1 CHR ''=''" by simp
  have k2: "''c2VjcmV0MQ=='' = ''c2VjcmV0MQ'' @ replicate 2 CHR ''=''"
    by (simp add: numeral_2_eq_2)
  have le: "(0::nat) \<le> 3" "(1::nat) \<le> 3" "(2::nat) \<le> 3" by simp_all
  note d0 = decode_after_repadding[OF v l le(1) k0, THEN conjunct2]
  note d1 = decode_after_repadding[OF v l le(2) k1, THEN conjunct2]
  note d2 = decode_after_repadding[OF v l le(3) k2, THEN conjunct2]
  show ?thesis
    by (intro conjI) (rule v d0 d1 d2)+
qed

section \<open>Properties of the signer\<close>

subsection \<open>Digits\<close>

lemma digit_char_in: "d < 10 \<Longrightarrow> digit_char d \<in> set ''0123456789''"
  unfolding digit_char_def by (rule nth_mem) simp

lemma nat_digits_subset: "set (nat_digits n) \<subseteq> set ''0123456789''"
proof (induction n rule: nat_digits.induct)
  case (1 n)
  show ?case
  proof (cases "n < 10")
    case True
    then show ?thesis using digit_char_in[of n] by (subst nat_digits.simps) simp
  next
    case False
    have "n mod 10 < 10" by simp
    then have "digit_char (n mod 10) \<in> set ''0123456789''" by (rule digit_char_in)
    with False 1 show ?thesis by (subst nat_digits.simps) simp
  qed
qed

lemma zero_pad_subset: "set (zero_pad w n) \<subseteq> set ''0123456789''"
  using nat_digits_subset[of n] by (auto simp: zero_pad_def)





subsection \<open>ASCII\<close>

lemma is_ascii_Nil [simp]: "is_ascii []"
  by (simp add: is_ascii_def)

lemma is_ascii_Cons [simp]: "is_ascii (c # cs) = ((of_char c :: nat) < 128 \<and> is_ascii cs)"
  by (simp add: is_ascii_def)

lemma is_ascii_append [simp]: "is_ascii (xs @ ys) = (is_ascii xs \<and> is_ascii ys)"
  by (simp add: is_ascii_def)

lemma is_ascii_subset:
  assumes "set s \<subseteq> set ''0123456789''"
  shows "is_ascii s"
  unfolding is_ascii_def list_all_iff
proof
  fix c assume "c \<in> set s"
  with assms have "c \<in> set ''0123456789''" by blast
  then show "(of_char c :: nat) < 128" by auto
qed

lemma is_ascii_zero_pad [simp]: "is_ascii (zero_pad w n)"
  by (rule is_ascii_subset) (rule zero_pad_subset)

lemma is_ascii_newline [simp]: "is_ascii newline"
  by (simp add: newline_def)

lemma is_ascii_format_offset [simp]: "is_ascii (format_offset off)"
  by (cases off) (simp_all add: format_offset_def Let_def)

lemma is_ascii_isoformat [simp]: "is_ascii (isoformat_sep CHR ''T'' dt)"
  by (simp add: isoformat_sep_def)

subsection \<open>Base64 encoding\<close>

lemma b64_alphabet_length: "length b64_alphabet = 64"
  by (simp add: b64_alphabet_def)

lemma b64_alphabet_no_pad: "list_all (\<lambda>c. urlsafe_encode_translation c \<noteq> CHR ''='') b64_alphabet"
  by (simp add: b64_alphabet_def urlsafe_encode_translation_def)

lemma b64_char_not_pad:
  assumes "i < 64"
  shows "urlsafe_encode_translation (b64_char i) \<noteq> CHR ''=''"
proof -
  have "b64_char i \<in> set b64_alphabet"
    unfolding b64_char_def using assms by (intro nth_mem) (simp add: b64_alphabet_length)
  then show ?thesis
    using b64_alphabet_no_pad by (simp add: list_all_iff)
qed

lemma unat_byte_less: "unat (a :: byte) < 256"
proof -
  have "unat a < 2 ^ LENGTH(8)" by (rule unsigned_less)
  then show ?thesis by simp
qed

lemma sextet_bounds:
  fixes a b c :: byte
  shows "unat a div 4 < 64"
    and "unat a mod 4 * 16 + unat b div 16 < 64"
    and "unat b mod 16 * 4 + unat c div 64 < 64"
    and "unat c mod 64 < 64"
    and "unat b mod 16 * 4 < 64"
    and "unat a mod 4 * 16 < 64"
proof -
  have d: "unat a div 4 < 64" "unat b div 16 < 16" "unat c div 64 < 4"
    using unat_byte_less[of a] unat_byte_less[of b] unat_byte_less[of c]
    by (simp_all add: less_mult_imp_div_less)
  have m: "unat a mod 4 < 4" "unat b mod 16 < 16" "unat c mod 64 < 64"
    by simp_all
  show "unat a div 4 < 64" by (rule d(1))
  show "unat a mod 4 * 16 + unat b div 16 < 64" using m(1) d(2) by linarith
  show "unat b mod 16 * 4 + unat c div 64 < 64" using m(2) d(3) by linarith
  show "unat c mod 64 < 64" by (rule m(3))
  show "unat b mod 16 * 4 < 64" using m(2) by linarith
  show "unat a mod 4 * 16 < 64" using m(1) by linarith
qed

lemma pad_count_step:
  "(3 - length (a # b # c # rest) mod 3) mod 3 = (3 - length rest mod 3) mod 3"
proof -
  have "length (a # b # c # rest) = length rest + 3" by simp
  then show ?thesis by (simp only: mod_add_self2)
qed

lemma body_length_step:
  "(4 * length (a # b # c # rest) + 2) div 3 = 4 + (4 * length rest + 2) div 3"
proof -
  have "4 * length (a # b # c # rest) + 2 = (4 * length rest + 2) + 4 * 3" by simp
  then show ?thesis by (simp only: div_mult_self1 div_mult_self2 div_add_self2 add.commute[of 4])
qed

text \<open>
  The encoding is a body of alphabet characters followed by the padding, one \<open>=\<close> for each
  byte missing from the last group of three.
\<close>

lemma urlsafe_b64encode_body:
  "\<exists>body. urlsafe_b64encode bs = body @ replicate ((3 - length bs mod 3) mod 3) CHR ''=''
      \<and> CHR ''='' \<notin> set body \<and> length body = (4 * length bs + 2) div 3"
proof (induction bs rule: b64encode.induct)
  case (1 a b c rest)
  then obtain body where
    body: "urlsafe_b64encode rest = body @ replicate ((3 - length rest mod 3) mod 3) CHR ''=''"
      "CHR ''='' \<notin> set body" "length body = (4 * length rest + 2) div 3"
    by (elim exE conjE)
  let ?g = "map urlsafe_encode_translation
     [b64_char (unat a div 4), b64_char (unat a mod 4 * 16 + unat b div 16),
      b64_char (unat b mod 16 * 4 + unat c div 64), b64_char (unat c mod 64)]"
  have g: "CHR ''='' \<notin> set ?g"
    using b64_char_not_pad[OF sextet_bounds(1), of a]
      b64_char_not_pad[OF sextet_bounds(2), of a b]
      b64_char_not_pad[OF sextet_bounds(3), of b c]
      b64_char_not_pad[OF sextet_bounds(4), of c]
    by simp
  have "urlsafe_b64encode (a # b # c # rest) = ?g @ urlsafe_b64encode rest"
    by (simp add: urlsafe_b64encode_def)
  then have "urlsafe_b64encode (a # b # c # rest)
      = (?g @ body) @ replicate ((3 - length (a # b # c # rest) mod 3) mod 3) CHR ''=''"
    unfolding pad_count_step body(1) by (simp only: append_assoc)
  moreover have "CHR ''='' \<notin> set (?g @ body)"
    using g body(2) by simp
  moreover have "length (?g @ body) = (4 * length (a # b # c # rest) + 2) div 3"
    unfolding body_length_step using body(3) by simp
  ultimately show ?case by (intro exI[of _ "?g @ body"] conjI)
next
  case (2 a b)
  let ?g = "map urlsafe_encode_translation
     [b64_char (unat a div 4), b64_char (unat a mod 4 * 16 + unat b div 16),
      b64_char (unat b mod 16 * 4)]"
  have "CHR ''='' \<notin> set ?g"
    using b64_char_not_pad[OF sextet_bounds(1), of a]
      b64_char_not_pad[OF sextet_bounds(2), of a b]
      b64_char_not_pad[OF sextet_bounds(5), of b]
    by simp
  moreover have "urlsafe_b64encode [a, b] = ?g @ replicate ((3 - length [a, b] mod 3) mod 3) CHR ''=''"
    by (simp add: urlsafe_b64encode_def urlsafe_encode_translation_def)
  moreover have "length ?g = (4 * length [a, b] + 2) div 3" by simp
  ultimately show ?case by (intro exI[of _ ?g] conjI)
next
  case (3 a)
  let ?g = "map urlsafe_encode_translation
     [b64_char (unat a div 4), b64_char (unat a mod 4 * 16)]"
  have "CHR ''='' \<notin> set ?g"
    using b64_char_not_pad[OF sextet_bounds(1), of a]
      b64_char_not_pad[OF sextet_bounds(6), of a]
    by simp
  moreover have "urlsafe_b64encode [a] = ?g @ replicate ((3 - length [a] mod 3) mod 3) CHR ''=''"
    by (simp add: urlsafe_b64encode_def urlsafe_encode_translation_def numeral_2_eq_2)
  moreover have "length ?g = (4 * length [a] + 2) div 3" by simp
  ultimately show ?case by (intro exI[of _ ?g] conjI)
next
  case 4
  show ?case by (simp add: urlsafe_b64encode_def)
qed

lemma py_rstrip_padding:
  assumes "c \<notin> set body"
  shows "py_rstrip [c] (body @ replicate n c) = body"
proof -
  have "dropWhile (\<lambda>x. x \<in> set [c]) (replicate n c @ rev body)
      = dropWhile (\<lambda>x. x \<in> set [c]) (rev body)"
    by (rule dropWhile_append2) simp
  also have "\<dots> = rev body"
  proof (cases "rev body")
    case Nil
    then show ?thesis by simp
  next
    case (Cons x xs)
    then have "x \<in> set body" by (metis list.set_intros(1) set_rev)
    with assms have "x \<noteq> c" by blast
    with Cons show ?thesis by simp
  qed
  finally show ?thesis by (simp add: py_rstrip_def)
qed

subsection \<open>The digest has 32 bytes\<close>

lemma sha256_round_length: "length v = 8 \<Longrightarrow> length (sha256_round v kw) = 8"
  by (auto simp: sha256_round_def Let_def split: list.splits)

lemma foldl_round_length: "length v = 8 \<Longrightarrow> length (foldl sha256_round v kws) = 8"
  by (induction kws arbitrary: v) (simp_all add: sha256_round_length)

lemma sha256_compress_length: "length hs = 8 \<Longrightarrow> length (sha256_compress hs block) = 8"
  by (simp add: sha256_compress_def Let_def foldl_round_length)

lemma foldl_compress_length:
  "length hs = 8 \<Longrightarrow> length (foldl sha256_compress hs blocks) = 8"
  by (induction blocks arbitrary: hs) (simp_all add: sha256_compress_length)

lemma length_concat_be_bytes32: "length (concat (map be_bytes32 ws)) = 4 * length ws"
  by (induction ws) (simp_all add: be_bytes32_def)

lemma sha256_length: "length (sha256 m) = 32"
  by (simp add: sha256_def length_concat_be_bytes32 foldl_compress_length sha256_h0_def)

lemma hmac_sha256_length: "length (hmac_sha256 key msg) = 32"
  by (simp add: hmac_sha256_def Let_def sha256_length)

lemma signature_strip:
  "\<exists>signature. py_rstrip ''='' (urlsafe_b64encode (hmac_sha256 key msg)) = signature
      \<and> urlsafe_b64encode (hmac_sha256 key msg) = signature @ ''=''
      \<and> CHR ''='' \<notin> set signature \<and> length signature = 43"
proof -
  obtain body where
    body: "urlsafe_b64encode (hmac_sha256 key msg)
             = body @ replicate ((3 - length (hmac_sha256 key msg) mod 3) mod 3) CHR ''=''"
      "CHR ''='' \<notin> set body" "length body = (4 * length (hmac_sha256 key msg) + 2) div 3"
    using urlsafe_b64encode_body[of "hmac_sha256 key msg"] by (elim exE conjE)
  have enc: "urlsafe_b64encode (hmac_sha256 key msg) = body @ replicate 1 CHR ''=''"
    using body(1) by (simp add: hmac_sha256_length)
  have "py_rstrip ''='' (urlsafe_b64encode (hmac_sha256 key msg)) = body"
    unfolding enc using body(2) by (rule py_rstrip_padding)
  moreover have "urlsafe_b64encode (hmac_sha256 key msg) = body @ ''=''"
    using enc by simp
  moreover have "length body = 43"
    using body(3) by (simp add: hmac_sha256_length)
  ultimately show ?thesis using body(2) by (intro exI[of _ body] conjI)
qed

lemma encode_ascii_payload:
  assumes "is_ascii path" and "is_ascii query_params" and "is_ascii http_verb"
  shows "encode_ascii (signature_payload path query_params http_verb (isoformat dt))
       = Some (map (\<lambda>c. of_nat (of_char c))
            (path @ newline @ query_params @ newline @ http_verb @ newline @ isoformat dt @ newline))"
  using assms by (simp add: encode_ascii_def signature_payload_def isoformat_def)

text \<open>
  C1. When the secret decodes (after its padding is restored) to \<open>decoded_secret\<close> and path,
  query string and method are ASCII, the signer returns the credential
  \<open>Bearer 1.0:<key id>:<signature>\<close> in which \<open>signature\<close> is the URL-safe base64 encoding of
  the HMAC-SHA256 digest, keyed by \<open>decoded_secret\<close>, of the ASCII bytes of
  \<open><path>\n<query>\n<METHOD>\n<timestamp>\n\<close>, with its trailing \<open>=\<close> padding removed: the
  encoding is \<open>signature\<close> followed by the one padding character of a 32-byte digest, and
  \<open>signature\<close> (43 characters) contains no \<open>=\<close>.
\<close>

theorem signature_is_hmac_of_payload:
  assumes "decode_secret secret_key = Inr decoded_secret"
      and "is_ascii path" and "is_ascii query_params" and "is_ascii http_verb"
      and "timestamp = isoformat ((now_utc clock)\<lparr>microsecond := 0\<rparr>)"
  shows "\<exists>signature.
           create_crusoe_signature clock access_key_id secret_key http_verb path query_params
             = Inr (timestamp, ''Bearer 1.0:'' @ access_key_id @ '':'' @ signature)
         \<and> signature = py_rstrip ''=''
               (urlsafe_b64encode (hmac_sha256 decoded_secret
                 (map (\<lambda>c. of_nat (of_char c))
                   (path @ newline @ query_params @ newline @ http_verb @ newline
                      @ timestamp @ newline))))
         \<and> urlsafe_b64encode (hmac_sha256 decoded_secret
               (map (\<lambda>c. of_nat (of_char c))
                 (path @ newline @ query_params @ newline @ http_verb @ newline
                    @ timestamp @ newline)))
             = signature @ ''=''
         \<and> CHR ''='' \<notin> set signature \<and> length signature = 43"
proof -
  let ?msg = "map (\<lambda>c. of_nat (of_char c))
     (path @ newline @ query_params @ newline @ http_verb @ newline @ timestamp @ newline)"
  obtain signature where
    s: "py_rstrip ''='' (urlsafe_b64encode (hmac_sha256 decoded_secret ?msg)) = signature"
       "urlsafe_b64encode (hmac_sha256 decoded_secret ?msg) = signature @ ''=''"
       "CHR ''='' \<notin> set signature" "length signature = 43"
    using signature_strip[of decoded_secret ?msg] by (elim exE conjE)
  have "create_crusoe_signature clock access_key_id secret_key http_verb path query_params
      = Inr (timestamp, ''Bearer 1.0:'' @ access_key_id @ '':'' @ signature)"
    using assms(1) encode_ascii_payload[OF assms(2-4)] s(1)
    by (simp add: create_crusoe_signature_def Let_def decode_secret_def assms(5))
  then show ?thesis
    using s by (intro exI[of _ signature] conjI) simp_all
qed

theorem signature_is_hmac_of_payload_witness:
  "\<exists>signature.
     create_crusoe_signature
       \<lparr>year = 2025, month = 9, day = 3, hour = 16, minute = 7, second = 36,
        microsecond = 778033, utcoffset = None\<rparr>
       ''key-id'' ''c2VjcmV0MQ'' ''GET'' ''/v1alpha5/locations'' []
       = Inr (''2025-09-03T16:07:36+00:00'', ''Bearer 1.0:key-id:'' @ signature)
     \<and> CHR ''='' \<notin> set signature \<and> length signature = 43"
proof -
  let ?clock = "\<lparr>year = 2025, month = 9, day = 3, hour = 16, minute = 7, second = 36,
        microsecond = 778033, utcoffset = None\<rparr>"
  have d: "decode_secret ''c2VjcmV0MQ'' = Inr [115, 101, 99, 114, 101, 116, 49]"
    by code_simp
  have a: "is_ascii ''/v1alpha5/locations''" "is_ascii []" "is_ascii ''GET''"
    by simp_all
  have t: "''2025-09-03T16:07:36+00:00'' = isoformat ((now_utc ?clock)\<lparr>microsecond := 0\<rparr>)"
    by (simp add: isoformat_def isoformat_sep_def now_utc_def format_offset_def zero_pad_def
        nat_digits.simps digit_char_def)
  from signature_is_hmac_of_payload[OF d a t, of "''key-id''"]
  obtain signature where
    "create_crusoe_signature ?clock ''key-id'' ''c2VjcmV0MQ'' ''GET'' ''/v1alpha5/locations'' []
       = Inr (''2025-09-03T16:07:36+00:00'', ''Bearer 1.0:'' @ ''key-id'' @ '':'' @ signature)"
    "CHR ''='' \<notin> set signature" "length signature = 43"
    by (elim exE conjE)
  then show ?thesis by (intro exI[of _ signature] conjI) simp_all
qed




lemma replace_space_digits:
  assumes "set s \<subseteq> set ''0123456789''"
  shows "py_replace_char CHR '' '' CHR ''T'' s = s"
  unfolding py_replace_char_def
proof (rule map_idI)
  fix c assume "c \<in> set s"
  with assms have "c \<in> set ''0123456789''" by (rule subsetD)
  then have "c \<noteq> CHR '' ''" by auto
  then show "(if c = CHR '' '' then CHR ''T'' else c) = c" by simp
qed

lemma replace_space_zero_pad [simp]:
  "py_replace_char CHR '' '' CHR ''T'' (zero_pad w n) = zero_pad w n"
  by (rule replace_space_digits) (rule zero_pad_subset)

lemma py_replace_char_append [simp]:
  "py_replace_char a b (xs @ ys) = py_replace_char a b xs @ py_replace_char a b ys"
  by (simp add: py_replace_char_def)

lemma py_replace_char_Cons [simp]:
  "py_replace_char a b (c # cs) = (if c = a then b else c) # py_replace_char a b cs"
  by (simp add: py_replace_char_def)

lemma py_replace_char_Nil [simp]: "py_replace_char a b [] = []"
  by (simp add: py_replace_char_def)

lemma replace_space_format_offset [simp]:
  "py_replace_char CHR '' '' CHR ''T'' (format_offset off) = format_offset off"
  by (cases off) (simp_all add: format_offset_def Let_def)






section \<open>Properties of the client\<close>

subsection \<open>One request\<close>

lemma urlopen_answer:
  assumes "ep (server w) req = (Answer response, s)"
      and "\<not> is_retry r (req_verb req) (status_code response) (retry_after response \<noteq> None)"
  shows "urlopen ep r history req w
       = (Inr response, w\<lparr>server := s, trace := trace w @ [Sent req]\<rparr>)"
  using assms by (subst urlopen.simps) simp

lemma session_get_audit_request:
  "session_get (client_session self) ep (audit_logs_url (client_config self))
     (build_params start_time end_time limit offset kwargs) 30 w
   = urlopen ep (session_retry (client_session self)) 0
       (audit_request self start_time end_time limit offset kwargs) w"
  by (simp add: session_get_def audit_request_def)

lemma get_audit_logs_urlopen:
  "get_audit_logs self ep start_time end_time limit offset kwargs w
   = (case urlopen ep (session_retry (client_session self)) 0
             (audit_request self start_time end_time limit offset kwargs) w of
        (Inl e, w1) \<Rightarrow> (Inl (api_error e), w1)
      | (Inr response, w1) \<Rightarrow> (read_response response, w1))"
  by (simp add: get_audit_logs_def session_get_audit_request Let_def split: prod.splits sum.splits)

lemma client_retry [simp]: "session_retry (client_session (crusoe_client config)) = retry_strategy"
  by (simp add: crusoe_client_def create_session_def)

lemma audit_request_verb [simp]:
  "req_verb (audit_request self start_time end_time limit offset kwargs) = ''GET''"
  by (simp add: audit_request_def)

lemma final_status_not_retried:
  "final_status response \<Longrightarrow>
   \<not> is_retry (retry_strategy\<lparr>total := n\<rparr>) ''GET'' (status_code response)
        (retry_after response \<noteq> None)"
  by (auto simp: final_status_def is_retry_def retry_strategy_def)

lemma get_audit_logs_final:
  assumes "ep (server w) (audit_request (crusoe_client config) start_time end_time limit offset kwargs)
             = (Answer response, s)"
      and "final_status response"
  shows "get_audit_logs (crusoe_client config) ep start_time end_time limit offset kwargs w
       = (read_response response,
          w\<lparr>server := s,
            trace := trace w @ [Sent (audit_request (crusoe_client config) start_time end_time
                                       limit offset kwargs)]\<rparr>)"
proof -
  have "\<not> is_retry retry_strategy ''GET'' (status_code response) (retry_after response \<noteq> None)"
    using final_status_not_retried[OF assms(2), of "total retry_strategy"] by simp
  then show ?thesis
    using assms(1) by (simp add: get_audit_logs_urlopen urlopen_answer)
qed

subsection \<open>Pages from a scripted endpoint\<close>

lemma ok_page_final: "ok_page entries = Answer response \<Longrightarrow> final_status response"
  by (auto simp: ok_page_def final_status_def)

lemma read_ok_page:
  "ok_page entries = Answer response \<Longrightarrow> read_response response = Inr (JArr entries)"
  by (auto simp: ok_page_def read_response_def)

lemma get_audit_logs_ok_page:
  "get_audit_logs (crusoe_client config) scripted start_time end_time limit offset kwargs
     \<lparr>server = ok_page entries # rest, trace = tr\<rparr>
   = (Inr (JArr entries),
      \<lparr>server = rest,
       trace = tr @ [Sent (audit_request (crusoe_client config) start_time end_time limit offset
                            kwargs)]\<rparr>)"
proof -
  obtain response where r: "ok_page entries = Answer response"
    by (simp add: ok_page_def)
  have "scripted (server \<lparr>server = ok_page entries # rest, trace = tr\<rparr>)
          (audit_request (crusoe_client config) start_time end_time limit offset kwargs)
        = (Answer response, rest)"
    by (simp add: scripted_def r)
  from get_audit_logs_final[where ep = scripted
      and w = "\<lparr>server = ok_page entries # rest, trace = tr\<rparr>", OF this ok_page_final[OF r]]
    read_ok_page[OF r]
  show ?thesis by simp
qed

lemma max_pages_reached_mono:
  "\<not> max_pages_reached max_pages (page_count + k) \<Longrightarrow> 0 \<le> k
     \<Longrightarrow> \<not> max_pages_reached max_pages page_count"
  by (auto simp: max_pages_reached_def split: option.splits)

lemma paginate_last_page:
  assumes "entries = [] \<or> int (length entries) < page_size"
      and "\<not> max_pages_reached max_pages page_count"
  shows "paginate (crusoe_client config) scripted start_time end_time page_size max_pages
           all_logs offset page_count \<lparr>server = ok_page entries # rest, trace = tr\<rparr>
       = Some (Inr (all_logs @ entries),
               \<lparr>server = rest,
                trace = tr @ [Sent (page_request (crusoe_client config) start_time end_time
                                     page_size offset)]\<rparr>)"
  using assms
  by (subst paginate.simps) (auto simp: get_audit_logs_ok_page page_request_def)

lemma paginate_full_page:
  assumes "entries \<noteq> []" and "\<not> int (length entries) < page_size"
      and "\<not> max_pages_reached max_pages page_count"
  shows "paginate (crusoe_client config) scripted start_time end_time page_size max_pages
           all_logs offset page_count \<lparr>server = ok_page entries # rest, trace = tr\<rparr>
       = paginate (crusoe_client config) scripted start_time end_time page_size max_pages
           (all_logs @ entries) (offset + int (length entries)) (page_count + 1)
           \<lparr>server = rest,
            trace = tr @ [Sent (page_request (crusoe_client config) start_time end_time
                                 page_size offset), Slept 100]\<rparr>"
  using assms
  by (subst paginate.simps) (simp add: get_audit_logs_ok_page page_request_def)

lemma paginate_pages:
  assumes "list_all (\<lambda>p. p \<noteq> [] \<and> \<not> int (length p) < page_size) full"
      and "final = [] \<or> int (length final) < page_size"
      and "\<not> max_pages_reached max_pages (page_count + int (length full))"
  shows "paginate (crusoe_client config) scripted start_time end_time page_size max_pages
           all_logs offset page_count
           \<lparr>server = map ok_page full @ ok_page final # rest, trace = tr\<rparr>
       = Some (Inr (all_logs @ concat full @ final),
               \<lparr>server = rest,
                trace = tr @ page_events (crusoe_client config) start_time end_time page_size
                               offset full
                          @ [Sent (page_request (crusoe_client config) start_time end_time
                                     page_size (offset + int (length (concat full))))]\<rparr>)"
  using assms
proof (induction full arbitrary: all_logs offset page_count tr)
  case Nil
  then show ?case by (simp add: paginate_last_page)
next
  case (Cons p ps)
  from Cons.prems(1) have p: "p \<noteq> []" "\<not> int (length p) < page_size"
    and ps: "list_all (\<lambda>p. p \<noteq> [] \<and> \<not> int (length p) < page_size) ps"
    by simp_all
  have "page_count + int (length (p # ps)) = (page_count + 1) + int (length ps)"
    by simp
  with Cons.prems(3)
  have m: "\<not> max_pages_reached max_pages ((page_count + 1) + int (length ps))"
    by (rule subst[where P = "\<lambda>k. \<not> max_pages_reached max_pages k", rotated])
  have m0: "\<not> max_pages_reached max_pages page_count"
    using Cons.prems(3) by (rule max_pages_reached_mono) simp
  have "paginate (crusoe_client config) scripted start_time end_time page_size max_pages
           all_logs offset page_count
           \<lparr>server = map ok_page (p # ps) @ ok_page final # rest, trace = tr\<rparr>
      = paginate (crusoe_client config) scripted start_time end_time page_size max_pages
           (all_logs @ p) (offset + int (length p)) (page_count + 1)
           \<lparr>server = map ok_page ps @ ok_page final # rest,
            trace = tr @ [Sent (page_request (crusoe_client config) start_time end_time
                                 page_size offset), Slept 100]\<rparr>"
    using paginate_full_page[OF p m0] by simp
  also have "\<dots> = Some (Inr ((all_logs @ p) @ concat ps @ final),
               \<lparr>server = rest,
                trace = (tr @ [Sent (page_request (crusoe_client config) start_time end_time
                                 page_size offset), Slept 100])
                          @ page_events (crusoe_client config) start_time end_time page_size
                               (offset + int (length p)) ps
                          @ [Sent (page_request (crusoe_client config) start_time end_time
                                     page_size ((offset + int (length p))
                                        + int (length (concat ps))))]\<rparr>)"
    by (rule Cons.IH[OF ps Cons.prems(2) m])
  finally show ?case by (simp add: add.assoc)
qed

subsection \<open>Query parameters\<close>

lemma map_of_fold_update_other:
  "k \<notin> fst ` set kwargs \<Longrightarrow>
   map_of (fold (\<lambda>kv. AList.update (fst kv) (snd kv)) kwargs al) k = map_of al k"
  by (induction kwargs arbitrary: al) (simp_all add: update_conv')

lemma build_params_start_time:
  "''start_time'' \<notin> fst ` set kwargs \<Longrightarrow>
   map_of (build_params start_time end_time limit offset kwargs) ''start_time''
     = map_option (\<lambda>t. PyStr (isoformat t)) start_time"
  by (simp add: build_params_def Let_def map_of_fold_update_other update_conv'
      split: option.splits)

lemma build_params_end_time:
  "''end_time'' \<notin> fst ` set kwargs \<Longrightarrow>
   map_of (build_params start_time end_time limit offset kwargs) ''end_time''
     = map_option (\<lambda>t. PyStr (isoformat t)) end_time"
  by (simp add: build_params_def Let_def map_of_fold_update_other update_conv'
      split: option.splits)

lemma build_params_limit:
  "''limit'' \<notin> fst ` set kwargs \<Longrightarrow>
   map_of (build_params start_time end_time limit offset kwargs) ''limit''
     = (case limit of None \<Rightarrow> None | Some n \<Rightarrow> if n \<noteq> 0 then Some (PyInt n) else None)"
  by (simp add: build_params_def Let_def map_of_fold_update_other update_conv'
      split: option.splits)

lemma build_params_offset:
  "''offset'' \<notin> fst ` set kwargs \<Longrightarrow>
   map_of (build_params start_time end_time limit offset kwargs) ''offset''
     = (case offset of None \<Rightarrow> None | Some n \<Rightarrow> if n \<noteq> 0 then Some (PyInt n) else None)"
  by (simp add: build_params_def Let_def map_of_fold_update_other update_conv'
      split: option.splits)

lemma key_in_params: "(k \<in> fst ` set ps) = (map_of ps k \<noteq> None)"
  by (simp add: map_of_eq_None_iff)

lemma page_request_offset:
  "map_of (params (page_request self start_time end_time page_size offset)) ''offset''
     = (if offset \<noteq> 0 then Some (PyInt offset) else None)"
  by (simp add: page_request_def audit_request_def build_params_offset)

lemma page_request_limit:
  "map_of (params (page_request self start_time end_time page_size offset)) ''limit''
     = (if page_size \<noteq> 0 then Some (PyInt page_size) else None)"
  by (simp add: page_request_def audit_request_def build_params_limit)

subsection \<open>The trace only grows\<close>

lemma trace_sleep_seconds: "\<exists>evs. trace (sleep_seconds n w) = trace w @ evs \<and> server (sleep_seconds n w) = server w"
  by (simp add: sleep_seconds_def)

lemma trace_retry_sleep:
  "\<exists>evs. trace (retry_sleep r h response w) = trace w @ evs"
  using trace_sleep_seconds[of _ w]
  by (auto simp: retry_sleep_def split: option.splits)

lemma urlopen_trace:
  "\<exists>evs. trace (snd (urlopen ep r history req w)) = trace w @ Sent req # evs"
proof (induction ep r history req w rule: urlopen.induct)
  case (1 ep r history req w)
  obtain a s where a: "ep (server w) req = (a, s)" by (cases "ep (server w) req")
  let ?w1 = "w\<lparr>server := s, trace := trace w @ [Sent req]\<rparr>"
  show ?case
  proof (cases a)
    case NetworkFailure
    show ?thesis
    proof (cases "total r - 1 < 0")
      case True
      with a NetworkFailure show ?thesis by (subst urlopen.simps) simp
    next
      case False
      obtain evs where e: "trace (retry_sleep r (history + 1) None ?w1) = trace ?w1 @ evs"
        using trace_retry_sleep by blast
      from "1.IH"(1)[OF a[symmetric] refl refl NetworkFailure False]
      obtain evs' where "trace (snd (urlopen ep (r\<lparr>total := total r - 1\<rparr>) (history + 1) req
          (retry_sleep r (history + 1) None ?w1)))
        = trace (retry_sleep r (history + 1) None ?w1) @ Sent req # evs'" by blast
      with e a NetworkFailure False show ?thesis
        by (subst urlopen.simps) simp
    qed
  next
    case (Answer response)
    show ?thesis
    proof (cases "is_retry r (req_verb req) (status_code response) (retry_after response \<noteq> None)
                  \<and> \<not> total r - 1 < 0")
      case True
      obtain evs where e: "trace (retry_sleep r (history + 1) (Some response) ?w1)
          = trace ?w1 @ evs"
        using trace_retry_sleep by blast
      from True "1.IH"(2)[OF a[symmetric] refl refl Answer]
      obtain evs' where "trace (snd (urlopen ep (r\<lparr>total := total r - 1\<rparr>) (history + 1) req
          (retry_sleep r (history + 1) (Some response) ?w1)))
        = trace (retry_sleep r (history + 1) (Some response) ?w1) @ Sent req # evs'" by blast
      with e a Answer True show ?thesis
        by (subst urlopen.simps) simp
    next
      case False
      with a Answer show ?thesis by (subst urlopen.simps) (auto simp: Let_def)
    qed
  qed
qed

lemma get_audit_logs_trace:
  "\<exists>evs. trace (snd (get_audit_logs self ep start_time end_time limit offset kwargs w))
     = trace w @ Sent (audit_request self start_time end_time limit offset kwargs) # evs"
  using urlopen_trace[of ep "session_retry (client_session self)" 0
      "audit_request self start_time end_time limit offset kwargs" w]
  by (auto simp: get_audit_logs_urlopen split: prod.splits sum.splits)

lemma paginate_trace:
  assumes "paginate self ep start_time end_time page_size max_pages all_logs offset page_count w
             = Some y"
  shows "\<exists>evs. trace (snd y) = trace w @ evs"
  using assms
proof (induction rule: paginate.raw_induct[rotated 1, consumes 1])
  case (1 paginate self ep start_time end_time page_size max_pages all_logs offset page_count w y)
  obtain x w1 where g: "get_audit_logs self ep start_time end_time (Some page_size) (Some offset)
      [] w = (x, w1)" by (cases "get_audit_logs self ep start_time end_time (Some page_size)
      (Some offset) [] w")
  obtain evs where e: "trace w1 = trace w @ evs"
    using get_audit_logs_trace[of self ep start_time end_time "Some page_size" "Some offset" "[]" w]
    by (auto simp: g)
  show ?case
  proof (cases "\<exists>logs n. \<not> max_pages_reached max_pages page_count \<and> x = Inr logs
                  \<and> py_len logs = Some n \<and> n \<noteq> 0 \<and> \<not> int n < page_size")
    case True
    then obtain logs n where l: "\<not> max_pages_reached max_pages page_count" "x = Inr logs"
      "py_len logs = Some n" "n \<noteq> 0" "\<not> int n < page_size" by blast
    with 1(2) g have "paginate self ep start_time end_time page_size max_pages
        (all_logs @ py_iter logs) (offset + int n) (page_count + 1)
        (w1\<lparr>trace := trace w1 @ [Slept 100]\<rparr>) = Some y" by simp
    from 1(1)[OF this] e show ?thesis by auto
  next
    case False
    with 1(2) g e show ?thesis
      by (auto split: if_splits sum.splits option.splits)
  qed
qed

text \<open>The first request of a paginated fetch is the one for offset 0.\<close>

lemma paginated_first_request:
  assumes "get_audit_logs_paginated self ep start_time end_time page_size max_pages w = Some y"
      and "\<not> max_pages_reached max_pages 0"
  shows "\<exists>evs. trace (snd y)
           = trace w @ Sent (page_request self start_time end_time page_size 0) # evs"
proof -
  obtain x w1 where g: "get_audit_logs self ep start_time end_time (Some page_size) (Some 0)
      [] w = (x, w1)" by (cases "get_audit_logs self ep start_time end_time (Some page_size)
      (Some 0) [] w")
  obtain evs where e: "trace w1
      = trace w @ Sent (page_request self start_time end_time page_size 0) # evs"
    using get_audit_logs_trace[of self ep start_time end_time "Some page_size" "Some 0" "[]" w]
    by (auto simp: g page_request_def)
  from assms have p: "paginate self ep start_time end_time page_size max_pages [] 0 0 w = Some y"
    by (simp add: get_audit_logs_paginated_def)
  show ?thesis
  proof (cases "\<exists>logs n. x = Inr logs
                  \<and> py_len logs = Some n \<and> n \<noteq> 0 \<and> \<not> int n < page_size")
    case True
    then obtain logs n where l: "x = Inr logs"
      "py_len logs = Some n" "n \<noteq> 0" "\<not> int n < page_size" by blast
    from p have "paginate self ep start_time end_time page_size max_pages
        ([] @ py_iter logs) (0 + int n) (0 + 1)
        (w1\<lparr>trace := trace w1 @ [Slept 100]\<rparr>) = Some y"
      by (subst (asm) paginate.simps) (simp add: g l assms(2))
    from paginate_trace[OF this] e show ?thesis by auto
  next
    case False
    from p False g e assms(2) show ?thesis
      by (subst (asm) paginate.simps) (auto split: if_splits sum.splits option.splits)
  qed
qed

lemma paginated_pages:
  assumes "list_all (\<lambda>p. p \<noteq> [] \<and> \<not> int (length p) < page_size) full"
      and "final = [] \<or> int (length final) < page_size"
      and "\<not> max_pages_reached max_pages (int (length full))"
  shows "get_audit_logs_paginated (crusoe_client config) scripted start_time end_time page_size
           max_pages \<lparr>server = map ok_page full @ ok_page final # rest, trace = []\<rparr>
       = Some (Inr (concat full @ final),
               \<lparr>server = rest,
                trace = page_events (crusoe_client config) start_time end_time page_size 0 full
                          @ [Sent (page_request (crusoe_client config) start_time end_time
                                     page_size (int (length (concat full))))]\<rparr>)"
  using paginate_pages[OF assms(1,2), of max_pages 0 config start_time end_time "[]" 0 rest "[]"]
    assms(3)
  by (simp add: get_audit_logs_paginated_def)

lemma paginated_100_100_37:
  assumes "length a = 100" and "length b = 100" and "length c = 37"
  shows "get_audit_logs_paginated (crusoe_client config) scripted start_time end_time 100 None
           \<lparr>server = ok_page a # ok_page b # ok_page c # rest, trace = []\<rparr>
       = Some (Inr (a @ b @ c),
               \<lparr>server = rest,
                trace = [Sent (page_request (crusoe_client config) start_time end_time 100 0),
                         Slept 100,
                         Sent (page_request (crusoe_client config) start_time end_time 100 100),
                         Slept 100,
                         Sent (page_request (crusoe_client config) start_time end_time 100 200)]\<rparr>)"
proof -
  have f: "list_all (\<lambda>p. p \<noteq> [] \<and> \<not> int (length p) < 100) [a, b]"
    using assms by auto
  have l: "c = [] \<or> int (length c) < 100" using assms by simp
  have m: "\<not> max_pages_reached None (int (length [a, b]))"
    by (simp add: max_pages_reached_def)
  from paginated_pages[OF f l m, of config start_time end_time rest] assms
  show ?thesis by simp
qed

lemma paginated_empty_first_page:
  assumes "\<not> max_pages_reached max_pages 0"
  shows "get_audit_logs_paginated (crusoe_client config) scripted start_time end_time page_size
           max_pages \<lparr>server = ok_page [] # rest, trace = []\<rparr>
       = Some (Inr [],
               \<lparr>server = rest,
                trace = [Sent (page_request (crusoe_client config) start_time end_time
                                 page_size 0)]\<rparr>)"
proof -
  have f: "list_all (\<lambda>p. p \<noteq> [] \<and> \<not> int (length p) < page_size) []" by simp
  have l: "([]::json list) = [] \<or> int (length ([]::json list)) < page_size" by simp
  from paginated_pages[OF f l, of max_pages config start_time end_time rest] assms
  show ?thesis by simp
qed

text \<open>
  C3. Against an endpoint that answers with pages (200 responses with an \<open>items\<close> list): if
  the pages \<open>full\<close> are non-empty and not shorter than \<open>page_size\<close>, the next page \<open>final\<close>
  is empty or shorter than \<open>page_size\<close>, and \<open>max_pages\<close> does not cut the run short, the
  paginated fetch returns the concatenation of \<open>full\<close> and \<open>final\<close> in order. It sends one
  request per page and nothing after \<open>final\<close>: the first for offset 0, each next one for the
  offset advanced by the number of entries received (with the pause of 0.1 s in between).
  For pages of 100, 100 and 37 entries and \<open>page_size = 100\<close> these are exactly three
  requests, for the offsets 0, 100 and 200, and 237 entries are returned; the request for
  offset 0 carries no \<open>offset\<close> parameter, the others carry 100 and 200. An empty first
  page gives the empty list after one request.
\<close>

theorem paginated_fetch_concatenates_pages:
  "(\<forall>(full :: json list list) (final :: json list) rest.
      list_all (\<lambda>p. p \<noteq> [] \<and> \<not> int (length p) < page_size) full
      \<and> (final = [] \<or> int (length final) < page_size)
      \<and> \<not> max_pages_reached max_pages (int (length full))
      \<longrightarrow> get_audit_logs_paginated (crusoe_client config) scripted start_time end_time page_size
            max_pages \<lparr>server = map ok_page full @ ok_page final # rest, trace = []\<rparr>
          = Some (Inr (concat full @ final),
                  \<lparr>server = rest,
                   trace = page_events (crusoe_client config) start_time end_time page_size 0
                             full
                           @ [Sent (page_request (crusoe_client config) start_time end_time
                                      page_size (int (length (concat full))))]\<rparr>))
   \<and> (\<forall>(a :: json list) (b :: json list) (c :: json list) rest.
        length a = 100 \<and> length b = 100 \<and> length c = 37
        \<longrightarrow> get_audit_logs_paginated (crusoe_client config) scripted start_time end_time 100
              None \<lparr>server = ok_page a # ok_page b # ok_page c # rest, trace = []\<rparr>
            = Some (Inr (a @ b @ c),
                 \<lparr>server = rest,
                  trace =
                    [Sent (page_request (crusoe_client config) start_time end_time 100 0),
                     Slept 100,
                     Sent (page_request (crusoe_client config) start_time end_time 100 100),
                     Slept 100,
                     Sent (page_request (crusoe_client config) start_time end_time 100 200)]\<rparr>)
          \<and> length (a @ b @ c) = 237)
   \<and> map (\<lambda>offset. map_of (params (page_request (crusoe_client config) start_time end_time 100
                 offset)) ''offset'') [0, 100, 200]
       = [None, Some (PyInt 100), Some (PyInt 200)]
   \<and> (\<forall>rest.
        \<not> max_pages_reached max_pages 0
        \<longrightarrow> get_audit_logs_paginated (crusoe_client config) scripted start_time end_time page_size
              max_pages \<lparr>server = ok_page [] # rest, trace = []\<rparr>
            = Some (Inr [],
                 \<lparr>server = rest,
                  trace = [Sent (page_request (crusoe_client config) start_time end_time
                                   page_size 0)]\<rparr>))"
proof (intro conjI allI impI)
  fix full :: "json list list" and final :: "json list" and rest
  assume "list_all (\<lambda>p. p \<noteq> [] \<and> \<not> int (length p) < page_size) full
      \<and> (final = [] \<or> int (length final) < page_size)
      \<and> \<not> max_pages_reached max_pages (int (length full))"
  then show "get_audit_logs_paginated (crusoe_client config) scripted start_time end_time page_size
            max_pages \<lparr>server = map ok_page full @ ok_page final # rest, trace = []\<rparr>
          = Some (Inr (concat full @ final),
                  \<lparr>server = rest,
                   trace = page_events (crusoe_client config) start_time end_time page_size 0
                             full
                           @ [Sent (page_request (crusoe_client config) start_time end_time
                                      page_size (int (length (concat full))))]\<rparr>)"
    by (intro paginated_pages) simp_all
next
  fix a b c :: "json list" and rest
  assume h: "length a = 100 \<and> length b = 100 \<and> length c = 37"
  then show "get_audit_logs_paginated (crusoe_client config) scripted start_time end_time 100
              None \<lparr>server = ok_page a # ok_page b # ok_page c # rest, trace = []\<rparr>
            = Some (Inr (a @ b @ c),
                 \<lparr>server = rest,
                  trace =
                    [Sent (page_request (crusoe_client config) start_time end_time 100 0),
                     Slept 100,
                     Sent (page_request (crusoe_client config) start_time end_time 100 100),
                     Slept 100,
                     Sent (page_request (crusoe_client config) start_time end_time 100 200)]\<rparr>)"
    by (intro paginated_100_100_37) simp_all
  from h show "length (a @ b @ c) = 237" by simp
next
  show "map (\<lambda>offset. map_of (params (page_request (crusoe_client config) start_time end_time 100
                 offset)) ''offset'') [0, 100, 200]
       = [None, Some (PyInt 100), Some (PyInt 200)]"
    by (simp add: page_request_offset)
next
  fix rest
  assume "\<not> max_pages_reached max_pages 0"
  then show "get_audit_logs_paginated (crusoe_client config) scripted start_time end_time page_size
              max_pages \<lparr>server = ok_page [] # rest, trace = []\<rparr>
            = Some (Inr [],
                 \<lparr>server = rest,
                  trace = [Sent (page_request (crusoe_client config) start_time end_time
                                   page_size 0)]\<rparr>)"
    by (rule paginated_empty_first_page)
qed

theorem paginated_fetch_concatenates_pages_witness:
  "get_audit_logs_paginated (crusoe_client example_config) scripted (Some example_start)
     (Some example_end) 2 None
     \<lparr>server = [ok_page [JNum ''1'', JNum ''2''], ok_page [JNum ''3'', JNum ''4''],
                 ok_page [JNum ''5'']],
      trace = []\<rparr>
   = Some (Inr [JNum ''1'', JNum ''2'', JNum ''3'', JNum ''4'', JNum ''5''],
       \<lparr>server = [],
        trace =
          [Sent (page_request (crusoe_client example_config) (Some example_start)
                   (Some example_end) 2 0),
           Slept 100,
           Sent (page_request (crusoe_client example_config) (Some example_start)
                   (Some example_end) 2 2),
           Slept 100,
           Sent (page_request (crusoe_client example_config) (Some example_start)
                   (Some example_end) 2 4)]\<rparr>)
   \<and> get_audit_logs_paginated (crusoe_client example_config) scripted (Some example_start)
       (Some example_end) 100 None
       \<lparr>server = [ok_page (replicate 100 JNull), ok_page (replicate 100 JNull),
                   ok_page (replicate 37 JNull)],
        trace = []\<rparr>
     = Some (Inr (replicate 100 JNull @ replicate 100 JNull @ replicate 37 JNull),
         \<lparr>server = [],
          trace =
            [Sent (page_request (crusoe_client example_config) (Some example_start)
                     (Some example_end) 100 0),
             Slept 100,
             Sent (page_request (crusoe_client example_config) (Some example_start)
                     (Some example_end) 100 100),
             Slept 100,
             Sent (page_request (crusoe_client example_config) (Some example_start)
                     (Some example_end) 100 200)]\<rparr>)
   \<and> get_audit_logs_paginated (crusoe_client example_config) scripted (Some example_start)
       (Some example_end) 100 None \<lparr>server = [ok_page []], trace = []\<rparr>
     = Some (Inr [],
         \<lparr>server = [],
          trace = [Sent (page_request (crusoe_client example_config) (Some example_start)
                           (Some example_end) 100 0)]\<rparr>)"
proof (intro conjI)
  note t = paginated_fetch_concatenates_pages[of 2 None example_config "Some example_start"
      "Some example_end"]
  have h: "list_all (\<lambda>p. p \<noteq> [] \<and> \<not> int (length p) < 2)
             [[JNum ''1'', JNum ''2''], [JNum ''3'', JNum ''4'']]
      \<and> ([JNum ''5''] = [] \<or> int (length [JNum ''5'']) < 2)
      \<and> \<not> max_pages_reached None
            (int (length [[JNum ''1'', JNum ''2''], [JNum ''3'', JNum ''4'']]))"
    by (simp add: max_pages_reached_def)
  from t[THEN conjunct1, rule_format, OF h, of "[]"]
  show "get_audit_logs_paginated (crusoe_client example_config) scripted (Some example_start)
     (Some example_end) 2 None
     \<lparr>server = [ok_page [JNum ''1'', JNum ''2''], ok_page [JNum ''3'', JNum ''4''],
                 ok_page [JNum ''5'']],
      trace = []\<rparr>
   = Some (Inr [JNum ''1'', JNum ''2'', JNum ''3'', JNum ''4'', JNum ''5''],
       \<lparr>server = [],
        trace =
          [Sent (page_request (crusoe_client example_config) (Some example_start)
                   (Some example_end) 2 0),
           Slept 100,
           Sent (page_request (crusoe_client example_config) (Some example_start)
                   (Some example_end) 2 2),
           Slept 100,
           Sent (page_request (crusoe_client example_config) (Some example_start)
                   (Some example_end) 2 4)]\<rparr>)"
    by simp
next
  note t = paginated_fetch_concatenates_pages[of 100 None example_config "Some example_start"
      "Some example_end"]
  have h: "length (replicate 100 JNull) = 100 \<and> length (replicate 100 JNull) = 100
      \<and> length (replicate 37 JNull) = 37"
    by simp
  from t[THEN conjunct2, THEN conjunct1, rule_format, OF h, THEN conjunct1, of "[]"]
  show "get_audit_logs_paginated (crusoe_client example_config) scripted (Some example_start)
       (Some example_end) 100 None
       \<lparr>server = [ok_page (replicate 100 JNull), ok_page (replicate 100 JNull),
                   ok_page (replicate 37 JNull)],
        trace = []\<rparr>
     = Some (Inr (replicate 100 JNull @ replicate 100 JNull @ replicate 37 JNull),
         \<lparr>server = [],
          trace =
            [Sent (page_request (crusoe_client example_config) (Some example_start)
                     (Some example_end) 100 0),
             Slept 100,
             Sent (page_request (crusoe_client example_config) (Some example_start)
                     (Some example_end) 100 100),
             Slept 100,
             Sent (page_request (crusoe_client example_config) (Some example_start)
                     (Some example_end) 100 200)]\<rparr>)" .
next
  note t = paginated_fetch_concatenates_pages[of 100 None example_config "Some example_start"
      "Some example_end"]
  have h: "\<not> max_pages_reached None 0" by (simp add: max_pages_reached_def)
  from t[THEN conjunct2, THEN conjunct2, THEN conjunct2, rule_format, OF h, of "[]"]
  show "get_audit_logs_paginated (crusoe_client example_config) scripted (Some example_start)
       (Some example_end) 100 None \<lparr>server = [ok_page []], trace = []\<rparr>
     = Some (Inr [],
         \<lparr>server = [],
          trace = [Sent (page_request (crusoe_client example_config) (Some example_start)
                           (Some example_end) 100 0)]\<rparr>)" .
qed

text \<open>
  C10. \<open>get_audit_logs\<close> puts \<open>start_time\<close>, \<open>end_time\<close>, \<open>limit\<close> and \<open>offset\<close> into the query
  parameters of its request exactly when the argument is truthy: a time when it is given,
  an integer when it is given and not zero (extra keyword arguments cannot carry these four
  names, which Python binds to the parameters). So a limit or an offset of 0 is left out,
  and the first request of a paginated fetch, the one for offset 0, has no \<open>offset\<close>
  parameter.
\<close>

theorem parameters_included_iff_truthy:
  assumes "fst ` set kwargs \<inter> {''start_time'', ''end_time'', ''limit'', ''offset''} = {}"
  shows "(''start_time'' \<in> fst ` set (params (audit_request self start_time end_time limit offset
              kwargs)) \<longleftrightarrow> start_time \<noteq> None)
       \<and> (''end_time'' \<in> fst ` set (params (audit_request self start_time end_time limit offset
              kwargs)) \<longleftrightarrow> end_time \<noteq> None)
       \<and> (''limit'' \<in> fst ` set (params (audit_request self start_time end_time limit offset
              kwargs)) \<longleftrightarrow> limit \<noteq> None \<and> limit \<noteq> Some 0)
       \<and> (''offset'' \<in> fst ` set (params (audit_request self start_time end_time limit offset
              kwargs)) \<longleftrightarrow> offset \<noteq> None \<and> offset \<noteq> Some 0)
       \<and> (\<exists>evs. trace (snd (get_audit_logs self ep start_time end_time limit offset kwargs w))
              = trace w @ Sent (audit_request self start_time end_time limit offset kwargs)
                  # evs)
       \<and> ''offset'' \<notin> fst ` set (params (page_request self start_time end_time page_size 0))
       \<and> (\<forall>y. get_audit_logs_paginated self ep start_time end_time page_size max_pages w
                 = Some y \<and> \<not> max_pages_reached max_pages 0
              \<longrightarrow> (\<exists>evs. trace (snd y)
                     = trace w @ Sent (page_request self start_time end_time page_size 0)
                         # evs))"
proof -
  from assms have k: "''start_time'' \<notin> fst ` set kwargs" "''end_time'' \<notin> fst ` set kwargs"
    "''limit'' \<notin> fst ` set kwargs" "''offset'' \<notin> fst ` set kwargs"
    by blast+
  have p: "params (audit_request self start_time end_time limit offset kwargs)
         = build_params start_time end_time limit offset kwargs"
    by (simp add: audit_request_def)
  have 1: "''start_time'' \<in> fst ` set (params (audit_request self start_time end_time limit
      offset kwargs)) \<longleftrightarrow> start_time \<noteq> None"
    unfolding p key_in_params build_params_start_time[OF k(1)] by simp
  have 2: "''end_time'' \<in> fst ` set (params (audit_request self start_time end_time limit offset
      kwargs)) \<longleftrightarrow> end_time \<noteq> None"
    unfolding p key_in_params build_params_end_time[OF k(2)] by simp
  have 3: "''limit'' \<in> fst ` set (params (audit_request self start_time end_time limit offset
      kwargs)) \<longleftrightarrow> limit \<noteq> None \<and> limit \<noteq> Some 0"
    unfolding p key_in_params build_params_limit[OF k(3)] by (simp split: option.splits)
  have 4: "''offset'' \<in> fst ` set (params (audit_request self start_time end_time limit offset
      kwargs)) \<longleftrightarrow> offset \<noteq> None \<and> offset \<noteq> Some 0"
    unfolding p key_in_params build_params_offset[OF k(4)] by (simp split: option.splits)
  have 5: "''offset'' \<notin> fst ` set (params (page_request self start_time end_time page_size 0))"
    unfolding key_in_params page_request_offset by simp
  have 6: "\<forall>y. get_audit_logs_paginated self ep start_time end_time page_size max_pages w
                 = Some y \<and> \<not> max_pages_reached max_pages 0
              \<longrightarrow> (\<exists>evs. trace (snd y)
                     = trace w @ Sent (page_request self start_time end_time page_size 0)
                         # evs)"
    using paginated_first_request by blast
  show ?thesis
    using 1 2 3 4 get_audit_logs_trace 5 6 by (intro conjI)
qed

theorem parameters_included_iff_truthy_witness:
  "''start_time'' \<in> fst ` set (params (audit_request (crusoe_client example_config)
        (Some example_start) None (Some 100) (Some 0) []))
   \<and> ''end_time'' \<notin> fst ` set (params (audit_request (crusoe_client example_config)
        (Some example_start) None (Some 100) (Some 0) []))
   \<and> ''limit'' \<in> fst ` set (params (audit_request (crusoe_client example_config)
        (Some example_start) None (Some 100) (Some 0) []))
   \<and> ''offset'' \<notin> fst ` set (params (audit_request (crusoe_client example_config)
        (Some example_start) None (Some 100) (Some 0) []))
   \<and> ''limit'' \<notin> fst ` set (params (audit_request (crusoe_client example_config)
        None None (Some 0) (Some 200) []))
   \<and> ''offset'' \<in> fst ` set (params (audit_request (crusoe_client example_config)
        None None (Some 0) (Some 200) []))"
proof -
  have k: "fst ` set ([] :: (string \<times> pyval) list)
             \<inter> {''start_time'', ''end_time'', ''limit'', ''offset''} = {}"
    by simp
  note a = parameters_included_iff_truthy[OF k, of "crusoe_client example_config"
      "Some example_start" None "Some 100" "Some 0"]
  note b = parameters_included_iff_truthy[OF k, of "crusoe_client example_config"
      None None "Some 0" "Some 200"]
  show ?thesis
    using a[THEN conjunct1] a[THEN conjunct2, THEN conjunct1]
      a[THEN conjunct2, THEN conjunct2, THEN conjunct1]
      a[THEN conjunct2, THEN conjunct2, THEN conjunct2, THEN conjunct1]
      b[THEN conjunct2, THEN conjunct2, THEN conjunct1]
      b[THEN conjunct2, THEN conjunct2, THEN conjunct2, THEN conjunct1]
    by simp
qed

subsection \<open>Failed requests\<close>

lemma read_response_http_error:
  assumes "400 \<le> status_code response" and "status_code response < 600"
  shows "read_response response
       = Inl (CrusoeAPIError (HTTPError response)
               (Some (case json_body response of
                        Some error_detail \<Rightarrow> Detail error_detail
                      | None \<Rightarrow> Status (status_code response))))"
  using assms by (simp add: read_response_def api_error_def split: option.splits)

lemma auth_status_final:
  "status_code response = 401 \<or> status_code response = 403 \<Longrightarrow> final_status response"
  by (auto simp: final_status_def)

lemma paginate_error:
  assumes "\<not> max_pages_reached max_pages page_count"
      and "get_audit_logs self ep start_time end_time (Some page_size) (Some offset) [] w
             = (Inl e, w1)"
  shows "paginate self ep start_time end_time page_size max_pages all_logs offset page_count w
       = Some (if is_api_error e then Inl e else Inr all_logs, w1)"
  using assms by (subst paginate.simps) simp

lemma get_audit_logs_auth_failure:
  assumes "ep (server w) (audit_request (crusoe_client config) start_time end_time limit offset
             kwargs) = (Answer response, s)"
      and "status_code response = 401 \<or> status_code response = 403"
  shows "get_audit_logs (crusoe_client config) ep start_time end_time limit offset kwargs w
       = (Inl (CrusoeAPIError (HTTPError response)
                (Some (case json_body response of
                         Some error_detail \<Rightarrow> Detail error_detail
                       | None \<Rightarrow> Status (status_code response)))),
          w\<lparr>server := s,
            trace := trace w @ [Sent (audit_request (crusoe_client config) start_time end_time
                                       limit offset kwargs)]\<rparr>)"
proof -
  have "400 \<le> status_code response" "status_code response < 600"
    using assms(2) by auto
  from read_response_http_error[OF this]
    get_audit_logs_final[where ep = ep and w = w, OF assms(1) auth_status_final[OF assms(2)]]
  show ?thesis by simp
qed

lemma status_answer_final:
  "code \<notin> set [429, 500, 502, 503, 504] \<Longrightarrow> status_answer code b = Answer response
     \<Longrightarrow> final_status response"
  by (auto simp: status_answer_def final_status_def)

lemma get_audit_logs_scripted_final:
  assumes "code \<notin> set [429, 500, 502, 503, 504]"
  shows "get_audit_logs (crusoe_client config) scripted start_time end_time limit offset kwargs
           \<lparr>server = status_answer code b # rest, trace = tr\<rparr>
       = (read_response \<lparr>status_code = code, retry_after = None, json_body = b\<rparr>,
          \<lparr>server = rest,
           trace = tr @ [Sent (audit_request (crusoe_client config) start_time end_time limit
                                offset kwargs)]\<rparr>)"
proof -
  let ?r = "\<lparr>status_code = code, retry_after = None, json_body = b\<rparr>"
  have r: "status_answer code b = Answer ?r" by (simp add: status_answer_def)
  have "scripted (server \<lparr>server = status_answer code b # rest, trace = tr\<rparr>)
          (audit_request (crusoe_client config) start_time end_time limit offset kwargs)
        = (Answer ?r, rest)"
    by (simp add: scripted_def r)
  from get_audit_logs_final[where ep = scripted
      and w = "\<lparr>server = status_answer code b # rest, trace = tr\<rparr>", OF this
      status_answer_final[OF assms r]]
  show ?thesis by simp
qed

text \<open>
  C4, as the code has it. A page fetch that the endpoint answers with 401 or 403 sends
  exactly one request (the status is never retried, with or without \<open>Retry-After\<close>) and
  raises \<open>CrusoeAPIError\<close> at once; when the fetch is a page of the paginated fetch, that
  one re-raises the error to its caller. The error carries the server's JSON body when
  the body parses and the status code otherwise. Its class is \<open>CrusoeAPIError\<close>, the class
  of every failed request, not one of its own.
\<close>

theorem auth_failure_not_retried:
  assumes "ep (server w) (audit_request (crusoe_client config) start_time end_time limit offset
             kwargs) = (Answer response, s)"
      and "status_code response = 401 \<or> status_code response = 403"
      and "err = CrusoeAPIError (HTTPError response)
                   (Some (case json_body response of
                            Some error_detail \<Rightarrow> Detail error_detail
                          | None \<Rightarrow> Status (status_code response)))"
      and "w1 = w\<lparr>server := s,
                   trace := trace w @ [Sent (audit_request (crusoe_client config) start_time
                                              end_time limit offset kwargs)]\<rparr>"
  shows "get_audit_logs (crusoe_client config) ep start_time end_time limit offset kwargs w
           = (Inl err, w1)
       \<and> (limit = Some page_size \<and> offset = Some page_offset \<and> kwargs = []
            \<and> \<not> max_pages_reached max_pages page_count
          \<longrightarrow> paginate (crusoe_client config) ep start_time end_time page_size max_pages all_logs
                page_offset page_count w = Some (Inl err, w1))
       \<and> exn_class err = ''CrusoeAPIError''"
proof -
  have g: "get_audit_logs (crusoe_client config) ep start_time end_time limit offset kwargs w
           = (Inl err, w1)"
    unfolding assms(3,4) using assms(1,2) by (rule get_audit_logs_auth_failure)
  have a: "is_api_error err" by (simp add: assms(3))
  have "paginate (crusoe_client config) ep start_time end_time page_size max_pages all_logs
                page_offset page_count w = Some (Inl err, w1)"
    if "limit = Some page_size \<and> offset = Some page_offset \<and> kwargs = []
            \<and> \<not> max_pages_reached max_pages page_count"
    using paginate_error[of max_pages page_count "crusoe_client config" ep start_time end_time
        page_size page_offset w err w1 all_logs] that g a
    by simp
  moreover have "exn_class err = ''CrusoeAPIError''" by (simp add: assms(3))
  ultimately show ?thesis using g by blast
qed

theorem auth_failure_not_retried_witness:
  "get_audit_logs (crusoe_client example_config) scripted None None (Some 100) (Some 200) []
     \<lparr>server = [status_answer 401 (Some (JObj [(''message'', JStr ''invalid signature'')])),
                 ok_page []],
      trace = []\<rparr>
   = (Inl (CrusoeAPIError
            (HTTPError \<lparr>status_code = 401, retry_after = None,
                        json_body = Some (JObj [(''message'', JStr ''invalid signature'')])\<rparr>)
            (Some (Detail (JObj [(''message'', JStr ''invalid signature'')])))),
      \<lparr>server = [ok_page []],
       trace = [Sent (audit_request (crusoe_client example_config) None None (Some 100)
                        (Some 200) [])]\<rparr>)
   \<and> paginate (crusoe_client example_config) scripted None None 100 None
       [JNull] 200 2
       \<lparr>server = [status_answer 401 (Some (JObj [(''message'', JStr ''invalid signature'')])),
                   ok_page []],
        trace = []\<rparr>
     = Some (Inl (CrusoeAPIError
            (HTTPError \<lparr>status_code = 401, retry_after = None,
                        json_body = Some (JObj [(''message'', JStr ''invalid signature'')])\<rparr>)
            (Some (Detail (JObj [(''message'', JStr ''invalid signature'')])))),
      \<lparr>server = [ok_page []],
       trace = [Sent (audit_request (crusoe_client example_config) None None (Some 100)
                        (Some 200) [])]\<rparr>)"
proof -
  let ?b = "Some (JObj [(''message'', JStr ''invalid signature'')])"
  let ?r = "\<lparr>status_code = 401, retry_after = None, json_body = ?b\<rparr>"
  let ?w = "\<lparr>server = [status_answer 401 ?b, ok_page []], trace = []\<rparr>"
  let ?q = "audit_request (crusoe_client example_config) None None (Some 100) (Some 200) []"
  have e: "scripted (server ?w) ?q = (Answer ?r, [ok_page []])"
    by (simp add: scripted_def status_answer_def)
  have c: "status_code ?r = 401 \<or> status_code ?r = 403" by simp
  have m: "Some 100 = Some (100::int) \<and> Some 200 = Some (200::int)
      \<and> ([] :: (string \<times> pyval) list) = [] \<and> \<not> max_pages_reached None 2"
    by (simp add: max_pages_reached_def)
  note t = auth_failure_not_retried[where ep = scripted and w = ?w, OF e c refl refl,
      of 100 200 None 2 "[JNull]"]
  from t[THEN conjunct1] t[THEN conjunct2, THEN conjunct1, rule_format, OF m]
  show ?thesis by simp
qed

text \<open>
  The claim's "distinct error kind" does not hold: an authentication failure (401) and a
  missing resource (404) raise the same class.
\<close>

theorem auth_failure_error_kind_counterexample:
  "map_sum exn_class id
     (fst (get_audit_logs (crusoe_client example_config) scripted None None (Some 100) None []
             \<lparr>server = [status_answer 401 None], trace = []\<rparr>))
   = Inl ''CrusoeAPIError''
   \<and> map_sum exn_class id
     (fst (get_audit_logs (crusoe_client example_config) scripted None None (Some 100) None []
             \<lparr>server = [status_answer 404 None], trace = []\<rparr>))
   = Inl ''CrusoeAPIError''"
  by (simp add: get_audit_logs_scripted_final read_response_def api_error_def)

end
